theory Spec2Isabelle
  imports Main "HOL-Library.Word"
begin

unbundle bit_operations_syntax

section \<open>Bytes, slices and the struct codec\<close>

text \<open>
  A Python \<open>bytes\<close> or \<open>bytearray\<close> value is a list of bytes.  Python integers that
  are counts, offsets, cluster numbers or sizes are never negative in this program and are
  natural numbers here.  Every exception the source can raise is a value of \<open>error\<close>;
  a \<open>ValueError\<close>, \<open>IOError\<close> carries the message of the source.
\<close>

type_synonym byte = "8 word"

datatype error =
    FileNotFoundError
  | ValueError string
  | IOError string
  | NotImplementedError
  | AssertionError
  | IndexError
  | NameError
  | TypeError
  | StructError
  | ZeroDivisionError
  | UnicodeEncodeError

text \<open>\<open>xs[a:b]\<close> for \<open>0 \<le> a\<close>, and the slice assignment \<open>xs[a:b] = ys\<close>.\<close>

definition slice :: "'a list \<Rightarrow> nat \<Rightarrow> nat \<Rightarrow> 'a list" where
  "slice xs a b = take (b - a) (drop a xs)"

definition slice_assign :: "'a list \<Rightarrow> nat \<Rightarrow> nat \<Rightarrow> 'a list \<Rightarrow> 'a list" where
  "slice_assign xs a b ys = take a xs @ ys @ drop (max a b) xs"

text \<open>\<open>xs[i]\<close> for \<open>0 \<le> i\<close>: an \<open>IndexError\<close> out of range.\<close>

definition index :: "'a list \<Rightarrow> nat \<Rightarrow> error + 'a" where
  "index xs i = (if i < length xs then Inr (xs ! i) else Inl IndexError)"

text \<open>Little-endian values, as \<open>struct.unpack\<close> and \<open>struct.pack\<close> compute them.\<close>

fun le_value :: "byte list \<Rightarrow> nat" where
  "le_value [] = 0"
| "le_value (b # bs) = unat b + 256 * le_value bs"

definition le_bytes2 :: "nat \<Rightarrow> byte list" where
  "le_bytes2 v = [of_nat v, of_nat (v div 256)]"

definition le_bytes4 :: "nat \<Rightarrow> byte list" where
  "le_bytes4 v = [of_nat v, of_nat (v div 256), of_nat (v div 65536), of_nat (v div 16777216)]"

definition struct_unpack_I :: "byte list \<Rightarrow> error + nat" where
  "struct_unpack_I bs = (if length bs = 4 then Inr (le_value bs) else Inl StructError)"

definition struct_unpack_H :: "byte list \<Rightarrow> error + nat" where
  "struct_unpack_H bs = (if length bs = 2 then Inr (le_value bs) else Inl StructError)"

definition struct_pack_I :: "nat \<Rightarrow> error + byte list" where
  "struct_pack_I v = (if v < 2 ^ 32 then Inr (le_bytes4 v) else Inl StructError)"

definition struct_pack_H :: "nat \<Rightarrow> error + byte list" where
  "struct_pack_H v = (if v < 2 ^ 16 then Inr (le_bytes2 v) else Inl StructError)"

section \<open>The FAT codec\<close>

text \<open>
  The loop of \<open>_readfat\<close>: \<open>for i in range(0, len(data), 3)\<close> unpacks
  \<open>data[i:i+3] + b"\\0"\<close> as a little-endian 32-bit value and appends its two 12-bit
  halves.  \<open>struct.unpack\<close> raises when the last chunk is shorter than three bytes.
\<close>

function readfat_loop :: "byte list \<Rightarrow> nat \<Rightarrow> nat list \<Rightarrow> error + nat list" where
  "readfat_loop data i fat =
     (if i < length data then
        (case struct_unpack_I (slice data i (i + 3) @ [0]) of
           Inl e \<Rightarrow> Inl e
         | Inr pair \<Rightarrow>
             readfat_loop data (i + 3) (fat @ [pair AND 0xFFF, drop_bit 12 pair AND 0xFFF]))
      else Inr fat)"
  by pat_completeness auto
termination
  by (relation "measure (\<lambda>(data, i, fat). length data - i)") auto

declare readfat_loop.simps [simp del]

text \<open>
  The loop of \<open>_writefat\<close>: \<open>for i in range(0, len(self._fat), 2)\<close> packs two entries
  into the three bytes \<open>fats[j:j+3]\<close>.
\<close>

function writefat_loop :: "nat list \<Rightarrow> nat \<Rightarrow> nat \<Rightarrow> byte list \<Rightarrow> error + byte list" where
  "writefat_loop fat i j fats =
     (if i < length fat then
        (if i + 1 < length fat then
           (case struct_pack_I ((fat ! i AND 0xFFF) OR push_bit 12 (fat ! (i + 1) AND 0xFFF)) of
              Inl e \<Rightarrow> Inl e
            | Inr bs \<Rightarrow> writefat_loop fat (i + 2) (j + 3) (slice_assign fats j (j + 3) (take 3 bs)))
         else Inl IndexError)
      else Inr fats)"
  by pat_completeness auto
termination
  by (relation "measure (\<lambda>(fat, i, j, fats). length fat - i)") auto

declare writefat_loop.simps [simp del]

text \<open>
  The byte string that \<open>_writefat\<close> builds for one FAT copy of \<open>n\<close> bytes: the table is
  padded with a zero entry when its length is odd, and packed into \<open>bytearray(n)\<close>.
\<close>

definition pad_fat :: "nat list \<Rightarrow> nat list" where
  "pad_fat fat = (if odd (length fat) then fat @ [0] else fat)"

definition writefat_bytes :: "nat list \<Rightarrow> nat \<Rightarrow> error + byte list" where
  "writefat_bytes fat n = writefat_loop (pad_fat fat) 0 0 (replicate n 0)"

section \<open>Strings, file names and time stamps\<close>

text \<open>
  A Python \<open>str\<close> is a \<open>string\<close>: each character stands for the CP437 character of the
  same code, so that \<open>decode("cp437")\<close> and \<open>encode("cp437")\<close> are the two conversions
  between bytes and characters.  On the ASCII range this is the identity on codes.  Strings
  with characters that CP437 does not have are not represented, with one exception: the
  capitals that \<open>str.upper\<close> returns for the 24 small letters of CP437 whose capital is
  not in CP437.  In the result of \<open>upper\<close> the code of such a small letter stands for
  its capital (no other character of CP437 has that capital, so comparisons of upper-cased
  strings come out as in Python), and \<open>encode("cp437")\<close> of such a result raises
  \<open>UnicodeEncodeError\<close>.
\<close>

definition decode_cp437 :: "byte list \<Rightarrow> string" where
  "decode_cp437 bs = map (\<lambda>b. char_of (unat b)) bs"

definition encode_cp437 :: "string \<Rightarrow> byte list" where
  "encode_cp437 s = map (\<lambda>c. of_nat (of_char c)) s"

text \<open>
  \<open>str.upper\<close> on the characters of CP437: the ASCII letters, the ten accented and Greek
  small letters whose capital is in CP437 (by code: 0x81 to 0x9A, 0x82 to 0x90, 0x84 to 0x8E,
  0x86 to 0x8F, 0x87 to 0x80, 0x91 to 0x92, 0x94 to 0x99, 0xA4 to 0xA5, 0xE5 to 0xE4, 0xED to
  0xE8), and the sharp s 0xE1, which becomes \<open>SS\<close>.
\<close>

definition capital_in_cp437 :: "(nat \<times> nat) list" where
  "capital_in_cp437 =
     [(0x81, 0x9A), (0x82, 0x90), (0x84, 0x8E), (0x86, 0x8F), (0x87, 0x80),
      (0x91, 0x92), (0x94, 0x99), (0xA4, 0xA5), (0xE5, 0xE4), (0xED, 0xE8)]"

definition upper_char :: "char \<Rightarrow> string" where
  "upper_char c =
     (let n = (of_char c :: nat) in
      if 97 \<le> n \<and> n \<le> 122 then [char_of (n - 32)]
      else if n = 0xE1 then ''SS''
      else (case map_of capital_in_cp437 n of Some m \<Rightarrow> [char_of m] | None \<Rightarrow> [c]))"

definition upper :: "string \<Rightarrow> string" where
  "upper s = concat (map upper_char s)"

text \<open>
  The small letters of CP437 whose capital is not in CP437, by code, and
  \<open>s.upper().encode("cp437")\<close>.
\<close>

definition capital_not_in_cp437 :: "nat list" where
  "capital_not_in_cp437 =
     [0x83, 0x85, 0x88, 0x89, 0x8A, 0x8B, 0x8C, 0x8D, 0x93, 0x95, 0x96, 0x97, 0x98, 0x9F,
      0xA0, 0xA1, 0xA2, 0xA3, 0xE0, 0xE3, 0xE6, 0xE7, 0xEB, 0xEE]"

definition encode_upper :: "string \<Rightarrow> error + byte list" where
  "encode_upper u =
     (if \<exists>c \<in> set u. (of_char c :: nat) \<in> set capital_not_in_cp437 then Inl UnicodeEncodeError
      else Inr (encode_cp437 u))"

text \<open>
  \<open>str.rstrip()\<close> removes trailing white space: of the CP437 characters these are the
  codes 9 to 13, 28 to 32, and 255 (which decodes to the no-break space).
\<close>

definition is_space :: "char \<Rightarrow> bool" where
  "is_space c =
     (let n = (of_char c :: nat) in (9 \<le> n \<and> n \<le> 13) \<or> (28 \<le> n \<and> n \<le> 32) \<or> n = 255)"

definition rstrip :: "string \<Rightarrow> string" where
  "rstrip s = rev (dropWhile is_space (rev s))"

text \<open>\<open>bytes.ljust(n)\<close> pads with spaces on the right.\<close>

definition ljust :: "byte list \<Rightarrow> nat \<Rightarrow> byte list" where
  "ljust bs n = bs @ replicate (n - length bs) 0x20"

text \<open>\<open>s.find(c)\<close>: the index of the first occurrence, if any.\<close>

fun find_char :: "string \<Rightarrow> char \<Rightarrow> nat option" where
  "find_char [] c = None"
| "find_char (x # xs) c = (if x = c then Some 0 else map_option Suc (find_char xs c))"

definition replace_backslash :: "string \<Rightarrow> string" where
  "replace_backslash path = map (\<lambda>c. if c = CHR 0x5C then CHR ''/'' else c) path"

text \<open>\<open>_splitpath\<close>: head and tail of a path at its first slash.\<close>

definition splitpath :: "string \<Rightarrow> string \<times> string" where
  "splitpath path0 =
     (let path = replace_backslash path0 in
      case find_char path (CHR ''/'') of
        None \<Rightarrow> (path, [])
      | Some slash \<Rightarrow> (take slash path, drop (slash + 1) path))"

text \<open>\<open>path.basename\<close>: what follows the last slash.\<close>

definition basename :: "string \<Rightarrow> string" where
  "basename path = rev (takeWhile (\<lambda>c. c \<noteq> CHR ''/'') (rev (replace_backslash path)))"

text \<open>\<open>filename.rsplit(".", 1)\<close> for a name that contains a dot.\<close>

definition rsplit_dot :: "string \<Rightarrow> string \<times> string" where
  "rsplit_dot s =
     (let ext = rev (takeWhile (\<lambda>c. c \<noteq> CHR ''.'') (rev s))
      in (take (length s - length ext - 1) s, ext))"

text \<open>
  A \<open>datetime\<close> object without time zone.  Every \<open>datetime\<close> object is a date and
  a time that exist (\<open>valid_datetime\<close>); the record also has values that are no date, and
  the constructor \<open>datetime.datetime(year, month, day, hour, minute, second)\<close>, which
  sets the microsecond to 0, raises \<open>ValueError\<close> for them.
\<close>

record datetime =
  year :: nat
  month :: nat
  day :: nat
  hour :: nat
  minute :: nat
  second :: nat
  microsecond :: nat

definition is_leap :: "nat \<Rightarrow> bool" where
  "is_leap y = (y mod 4 = 0 \<and> (y mod 100 \<noteq> 0 \<or> y mod 400 = 0))"

definition days_in_month :: "nat \<Rightarrow> nat \<Rightarrow> nat" where
  "days_in_month y m =
     (if m = 2 then (if is_leap y then 29 else 28)
      else if m = 4 \<or> m = 6 \<or> m = 9 \<or> m = 11 then 30 else 31)"

definition valid_datetime :: "datetime \<Rightarrow> bool" where
  "valid_datetime t =
     (1 \<le> year t \<and> year t \<le> 9999 \<and> 1 \<le> month t \<and> month t \<le> 12
      \<and> 1 \<le> day t \<and> day t \<le> days_in_month (year t) (month t)
      \<and> hour t \<le> 23 \<and> minute t \<le> 59 \<and> second t \<le> 59 \<and> microsecond t \<le> 999999)"

definition mk_datetime :: "nat \<Rightarrow> nat \<Rightarrow> nat \<Rightarrow> nat \<Rightarrow> nat \<Rightarrow> nat \<Rightarrow> error + datetime" where
  "mk_datetime y mo d h mi s =
     (if y < 1 \<or> y > 9999 then Inl (ValueError ''year is out of range'')
      else if mo < 1 \<or> mo > 12 then Inl (ValueError ''month must be in 1..12'')
      else if d < 1 \<or> d > days_in_month y mo then Inl (ValueError ''day is out of range for month'')
      else if h > 23 then Inl (ValueError ''hour must be in 0..23'')
      else if mi > 59 then Inl (ValueError ''minute must be in 0..59'')
      else if s > 59 then Inl (ValueError ''second must be in 0..59'')
      else Inr \<lparr>year = y, month = mo, day = d, hour = h, minute = mi, second = s,
                microsecond = 0\<rparr>)"

text \<open>\<open>_edt_to_pdt\<close>: from the four bytes of a directory entry to a \<open>datetime\<close>.\<close>

definition edt_to_pdt :: "byte list \<Rightarrow> error + datetime" where
  "edt_to_pdt dt =
     (case struct_unpack_I dt of
        Inl e \<Rightarrow> Inl e
      | Inr i \<Rightarrow>
          mk_datetime (1980 + (drop_bit 25 i AND 0x7F)) (drop_bit 21 i AND 0x0F)
            (drop_bit 16 i AND 0x1F) (drop_bit 11 i AND 0x1F) (drop_bit 5 i AND 0x3F)
            ((i AND 0x1F) * 2))"

text \<open>
  \<open>_pdt_to_edt\<close>: from a \<open>datetime\<close> to four bytes.  \<open>(year - 1980) & 0x7F\<close> is computed
  on integers, the year may be below 1980.
\<close>

definition pdt_to_edt :: "datetime \<Rightarrow> error + byte list" where
  "pdt_to_edt dt =
     (let year' = nat ((int (year dt) - 1980) AND 0x7F);
          month' = month dt AND 0x0F;
          day' = day dt AND 0x1F;
          hour' = hour dt AND 0x1F;
          minute' = minute dt AND 0x3F;
          second' = (second dt div 2) AND 0x1F
      in struct_pack_I (push_bit 25 year' OR push_bit 21 month' OR push_bit 16 day'
                         OR push_bit 11 hour' OR push_bit 5 minute' OR second'))"

section \<open>The floppy image\<close>

text \<open>
  \<open>FloppyImage\<close>: the fields are \<open>size\<close> (3.5 or 5.25 inches), \<open>capacity\<close> in bytes,
  \<open>bytes_per_sector\<close> and the bytearray \<open>_data\<close>.  The fields of the record carry the
  prefix \<open>img_\<close> since the file system object has a \<open>bytes_per_sector\<close> of its own.
\<close>

datatype floppy_size = Inch_3_5 | Inch_5_25

record FloppyImage =
  img_size :: floppy_size
  img_capacity :: nat
  img_bytes_per_sector :: nat
  img_data :: "byte list"

text \<open>\<open>FloppyImage(size, capacity)\<close> with the capacity in kilobytes.\<close>

definition FloppyImage_init :: "floppy_size \<Rightarrow> nat \<Rightarrow> error + FloppyImage" where
  "FloppyImage_init sz cap =
     (if sz = Inch_3_5 \<and> cap \<notin> {360, 720, 1440} then Inl (ValueError ''capacity not supported'')
      else if sz = Inch_5_25 \<and> cap \<notin> {360, 1200} then Inl (ValueError ''capacity not supported'')
      else if sz \<noteq> Inch_3_5 \<and> cap \<noteq> 1440 then Inl NotImplementedError
      else Inr \<lparr>img_size = sz, img_capacity = cap * 1024, img_bytes_per_sector = 512,
                img_data = replicate (cap * 1024) 0\<rparr>)"

text \<open>\<open>FloppyImage.open\<close> on the bytes of a file.\<close>

definition FloppyImage_open :: "byte list \<Rightarrow> error + FloppyImage" where
  "FloppyImage_open bs =
     (if length bs \<noteq> 1440 * 1024 then Inl NotImplementedError
      else Inr \<lparr>img_size = Inch_3_5, img_capacity = length bs, img_bytes_per_sector = 512,
                img_data = bs\<rparr>)"

text \<open>\<open>read\<close> and \<open>write\<close> of the image, at a byte offset.\<close>

definition img_read :: "FloppyImage \<Rightarrow> nat \<Rightarrow> nat \<Rightarrow> byte list" where
  "img_read img offset len = slice (img_data img) offset (offset + len)"

definition img_write :: "FloppyImage \<Rightarrow> nat \<Rightarrow> byte list \<Rightarrow> FloppyImage" where
  "img_write img offset bs =
     img\<lparr>img_data := slice_assign (img_data img) offset (offset + length bs) bs\<rparr>"

definition read_sector :: "FloppyImage \<Rightarrow> nat \<Rightarrow> error + byte list" where
  "read_sector img sectornum =
     (if sectornum * img_bytes_per_sector img \<ge> length (img_data img)
      then Inl (ValueError ''invalid sector index'')
      else Inr (img_read img (sectornum * img_bytes_per_sector img) (img_bytes_per_sector img)))"

definition read_sectors :: "FloppyImage \<Rightarrow> nat \<Rightarrow> nat \<Rightarrow> error + byte list" where
  "read_sectors img sectornum sectorcount =
     (if (sectornum + sectorcount) * img_bytes_per_sector img > length (img_data img)
      then Inl (ValueError ''invalid sector index'')
      else Inr (img_read img (sectornum * img_bytes_per_sector img)
                  (sectorcount * img_bytes_per_sector img)))"

definition write_sector :: "FloppyImage \<Rightarrow> nat \<Rightarrow> byte list \<Rightarrow> error + FloppyImage" where
  "write_sector img sectornum bs =
     (if sectornum * img_bytes_per_sector img \<ge> length (img_data img)
      then Inl (ValueError ''invalid sector number'')
      else if length bs \<noteq> img_bytes_per_sector img
      then Inl (ValueError ''invalid sector length'')
      else Inr (img_write img (sectornum * img_bytes_per_sector img) bs))"

definition write_sectors :: "FloppyImage \<Rightarrow> nat \<Rightarrow> nat \<Rightarrow> byte list \<Rightarrow> error + FloppyImage" where
  "write_sectors img sectornum sectorcount bs =
     (if sectornum * img_bytes_per_sector img \<ge> length (img_data img)
      then Inl (ValueError ''invalid sector number'')
      else if length bs \<noteq> sectorcount * img_bytes_per_sector img
      then Inl (ValueError ''invalid sector length'')
      else Inr (img_write img (sectornum * img_bytes_per_sector img) bs))"

definition read_mbr :: "FloppyImage \<Rightarrow> error + byte list" where
  "read_mbr img = read_sector img 0"

definition write_mbr :: "FloppyImage \<Rightarrow> byte list \<Rightarrow> error + FloppyImage" where
  "write_mbr img bs = write_sector img 0 bs"

section \<open>The file system object\<close>

text \<open>
  A value that is a \<open>str\<close> at some places of the program and a \<open>bytes\<close> at others
  (the label, the file name given to \<open>_makedirentry\<close>).
\<close>

datatype pytext = Str string | Bytes "byte list"

text \<open>
  The attributes of a \<open>FAT12\<close> object.  \<open>image\<close>, \<open>fat\<close>, \<open>root_dir_sector\<close>,
  \<open>first_cluster_sector\<close>, \<open>private_label\<close>, \<open>write_label\<close>, \<open>dircluster\<close> and
  \<open>dirparents\<close> are the attributes \<open>_image\<close>, \<open>_fat\<close>, \<open>_root_dir_sector\<close>,
  \<open>_first_cluster_sector\<close>, \<open>_label\<close>, \<open>_write_label\<close>, \<open>_dircluster\<close> and
  \<open>_dirparents\<close>.  \<open>label\<close> is absent until it is first assigned.  \<open>now\<close> is not an
  attribute: it is the value that \<open>datetime.datetime.now()\<close> returns while an operation
  runs.
\<close>

record FAT12 =
  image :: FloppyImage
  bytes_per_sector :: nat
  sectors_per_cluster :: nat
  fat_start_sector :: nat
  fat_count :: nat
  root_entries :: nat
  logical_sectors :: nat
  descriptor :: nat
  sectors_per_fat :: nat
  sectors_per_track :: nat
  number_of_heads :: nat
  hidden_sectors :: nat
  large_total_logical_sectors :: nat
  drive_number :: nat
  ebpb_flags :: nat
  has_ebpb :: bool
  serial :: "byte list option"
  bpb_label :: "byte list"
  fs_type :: "byte list option"
  fat :: "nat list"
  root_dir_sector :: nat
  first_cluster_sector :: nat
  private_label :: pytext
  label :: "pytext option"
  write_label :: bool
  dircluster :: nat
  dirparents :: "nat list"
  now :: datetime

text \<open>
  The outcome of a call that may change the object: the value returned or the exception
  raised, and the object after the call.  An exception leaves behind whatever the call had
  changed before.  A call that runs through a cluster chain need not return; such a call has
  an \<open>option\<close> outcome, \<open>None\<close> for a call that does not return.
\<close>

type_synonym 'a outcome = "(error + 'a) \<times> FAT12"

text \<open>Sequencing: continue with the value of a step, or stop with its exception.\<close>

definition ebind :: "error + 'a \<Rightarrow> ('a \<Rightarrow> error + 'b) \<Rightarrow> error + 'b" where
  "ebind m k = (case m of Inl e \<Rightarrow> Inl e | Inr x \<Rightarrow> k x)"

definition attempt :: "error + 'a \<Rightarrow> FAT12 \<Rightarrow> ('a \<Rightarrow> 'b outcome option) \<Rightarrow> 'b outcome option" where
  "attempt m fs k = (case m of Inl e \<Rightarrow> Some (Inl e, fs) | Inr x \<Rightarrow> k x)"

definition attempt_walk ::
  "(error + 'a) option \<Rightarrow> FAT12 \<Rightarrow> ('a \<Rightarrow> 'b outcome option) \<Rightarrow> 'b outcome option" where
  "attempt_walk m fs k =
     (case m of None \<Rightarrow> None | Some (Inl e) \<Rightarrow> Some (Inl e, fs) | Some (Inr x) \<Rightarrow> k x)"

definition and_then ::
  "'a outcome option \<Rightarrow> ('a \<Rightarrow> FAT12 \<Rightarrow> 'b outcome option) \<Rightarrow> 'b outcome option" where
  "and_then m k =
     (case m of None \<Rightarrow> None | Some (Inl e, fs) \<Rightarrow> Some (Inl e, fs) | Some (Inr x, fs) \<Rightarrow> k x fs)"

definition raise :: "error \<Rightarrow> FAT12 \<Rightarrow> 'a outcome option" where
  "raise e fs = Some (Inl e, fs)"

definition return :: "'a \<Rightarrow> FAT12 \<Rightarrow> 'a outcome option" where
  "return x fs = Some (Inr x, fs)"

subsection \<open>Clusters\<close>

definition cluster_is_end_of_chain :: "nat \<Rightarrow> bool" where
  "cluster_is_end_of_chain cluster = (cluster AND 0xFF8 = 0xFF8)"

definition isvalidcluster :: "nat \<Rightarrow> bool" where
  "isvalidcluster cluster = (2 \<le> cluster \<and> cluster < 0xFF0)"

definition cluster_index :: "FAT12 \<Rightarrow> nat \<Rightarrow> nat" where
  "cluster_index fs cluster = first_cluster_sector fs + cluster * sectors_per_cluster fs"

definition readcluster :: "FAT12 \<Rightarrow> nat \<Rightarrow> error + byte list" where
  "readcluster fs cluster = read_sectors (image fs) (cluster_index fs cluster) (sectors_per_cluster fs)"

definition writecluster :: "FAT12 \<Rightarrow> nat \<Rightarrow> byte list \<Rightarrow> error + FAT12" where
  "writecluster fs cluster bs =
     ebind (write_sectors (image fs) (cluster_index fs cluster) (sectors_per_cluster fs) bs)
       (\<lambda>img. Inr (fs\<lparr>image := img\<rparr>))"

text \<open>The root directory region, \<open>read_sectors(root_start, root_sectors)\<close>.\<close>

definition read_rootdir :: "FAT12 \<Rightarrow> error + byte list" where
  "read_rootdir fs = read_sectors (image fs) (root_dir_sector fs) (root_entries fs div 16)"

definition write_rootdir :: "FAT12 \<Rightarrow> byte list \<Rightarrow> error + FAT12" where
  "write_rootdir fs rootdir =
     ebind (write_sectors (image fs) (root_dir_sector fs) (root_entries fs div 16) rootdir)
       (\<lambda>img. Inr (fs\<lparr>image := img\<rparr>))"

subsection \<open>Directory entries\<close>

text \<open>
  \<open>_efn_to_cfn\<close>: the presentation form of the eleven name bytes of an entry.
\<close>

definition efn_to_cfn :: "byte list \<Rightarrow> error + string" where
  "efn_to_cfn fn =
     (case fn of
        [] \<Rightarrow> Inl IndexError
      | b # rest \<Rightarrow>
          (let fn' = decode_cp437 (if b = 5 then 0xE5 # rest else fn);
               ext = rstrip (drop 8 fn')
           in Inr (if ext \<noteq> [] then rstrip (take 8 fn') @ ''.'' @ ext else rstrip (take 8 fn'))))"

text \<open>
  The tuple that \<open>_parsedirentry\<close> returns: \<open>exists\<close> is \<open>None\<close> at the end of the
  directory, \<open>False\<close> for a free entry, and \<open>True\<close> with the file name, the attributes, the
  modification time, the starting cluster and the file size otherwise.
\<close>

datatype direntry =
    EndOfDirectory
  | FreeEntry
  | Entry string nat datetime nat nat

definition parsedirentry :: "byte list \<Rightarrow> error + direntry" where
  "parsedirentry data =
     ebind (index data 0) (\<lambda>b0.
       if b0 = 0 then Inr EndOfDirectory
       else if b0 = 0xE5 then Inr FreeEntry
       else
         ebind (efn_to_cfn (slice data 0 0x0B)) (\<lambda>filename.
         ebind (index data 0x0B) (\<lambda>attributes.
         ebind (edt_to_pdt (slice data 0x16 0x1A)) (\<lambda>modified.
         ebind (struct_unpack_H (slice data 0x1A 0x1C)) (\<lambda>cluster.
         ebind (struct_unpack_I (slice data 0x1C 0x20)) (\<lambda>file_size.
           Inr (Entry filename (unat attributes) modified cluster file_size)))))))"

text \<open>
  \<open>_makedirentry\<close>.  A \<open>str\<close> name is upper-cased, split at its last dot and
  encoded.  \<open>modified\<close> is \<open>None\<close> for the current time.  \<open>bytearray\<close> raises for an
  attribute value that is not a byte, \<open>struct.pack\<close> for a size of 32 bits or more.
\<close>

definition makedirentry ::
  "datetime \<Rightarrow> pytext \<Rightarrow> nat \<Rightarrow> datetime option \<Rightarrow> nat \<Rightarrow> nat \<Rightarrow> error + byte list" where
  "makedirentry current filename attributes modified cluster file_size =
     ebind (case filename of
              Bytes b \<Rightarrow> Inr (take 8 b, drop 8 b)
            | Str s \<Rightarrow>
                (let u = upper s;
                     (f, e) = (if CHR ''.'' \<in> set u then rsplit_dot u else (u, ''   ''))
                 in ebind (encode_upper f) (\<lambda>fb. ebind (encode_upper e) (\<lambda>eb. Inr (fb, eb)))))
       (\<lambda>(fname, ext).
          if length fname > 8 \<or> length ext > 3 then Inl (ValueError ''name too long'')
          else
            (let modified' = (case modified of None \<Rightarrow> current | Some m \<Rightarrow> m)
             in if cluster \<ge> 0xFF6 then Inl (ValueError ''invalid starting cluster'')
                else if attributes \<ge> 256 then Inl (ValueError ''byte must be in range(0, 256)'')
                else
                  ebind (pdt_to_edt modified') (\<lambda>edt.
                  ebind (struct_pack_H cluster) (\<lambda>c.
                  ebind (struct_pack_I file_size) (\<lambda>sz.
                    Inr (ljust fname 8 @ ljust ext 3
                         @ (of_nat attributes # replicate 10 0) @ edt @ c @ sz))))))"

text \<open>
  \<open>_allocdirentrycluster\<close>: the first offset from \<open>offset\<close>, in steps of 32, whose byte is
  0x00 or 0xE5.
\<close>

function allocdirentrycluster_loop :: "byte list \<Rightarrow> nat \<Rightarrow> nat option" where
  "allocdirentrycluster_loop sector i =
     (if i < length sector then
        (if sector ! i \<noteq> 0x00 \<and> sector ! i \<noteq> 0xE5
         then allocdirentrycluster_loop sector (i + 32)
         else Some i)
      else None)"
  by pat_completeness auto
termination
  by (relation "measure (\<lambda>(sector, i). length sector - i)") auto

declare allocdirentrycluster_loop.simps [simp del]

definition allocdirentrycluster :: "byte list \<Rightarrow> nat \<Rightarrow> error + nat option" where
  "allocdirentrycluster sector offset =
     (if offset mod 32 \<noteq> 0 then Inl AssertionError
      else Inr (allocdirentrycluster_loop sector offset))"

text \<open>
  \<open>_resolvefilesector\<close>: the offset of the first entry from \<open>offset\<close> that is a file or
  a directory of the given name, compared in upper case; the search ends at the end-of-directory
  entry.
\<close>

function resolvefilesector_loop :: "string \<Rightarrow> byte list \<Rightarrow> nat \<Rightarrow> error + nat option" where
  "resolvefilesector_loop name sector i =
     (if i < length sector then
        (case parsedirentry (slice sector i (i + 32)) of
           Inl e \<Rightarrow> Inl e
         | Inr EndOfDirectory \<Rightarrow> Inr None
         | Inr FreeEntry \<Rightarrow> resolvefilesector_loop name sector (i + 32)
         | Inr (Entry filename attributes modified cluster file_size) \<Rightarrow>
             if attributes AND 0xC8 \<noteq> 0 then resolvefilesector_loop name sector (i + 32)
             else if upper filename = name then Inr (Some i)
             else resolvefilesector_loop name sector (i + 32))
      else Inr None)"
  by pat_completeness auto
termination
  by (relation "measure (\<lambda>(name, sector, i). length sector - i)") auto

declare resolvefilesector_loop.simps [simp del]

definition resolvefilesector :: "string \<Rightarrow> byte list \<Rightarrow> nat \<Rightarrow> error + nat option" where
  "resolvefilesector name sector offset =
     (if offset mod 32 \<noteq> 0 then Inl AssertionError
      else resolvefilesector_loop (upper name) sector offset)"

text \<open>\<open>_readdirentry\<close> and \<open>_writedirentry\<close>; cluster 1 stands for the root directory.\<close>

definition readdirentry :: "FAT12 \<Rightarrow> nat \<Rightarrow> nat \<Rightarrow> error + byte list" where
  "readdirentry fs cluster offset =
     (if cluster = 1 then ebind (read_rootdir fs) (\<lambda>rootdir. Inr (slice rootdir offset (offset + 32)))
      else ebind (readcluster fs cluster) (\<lambda>data. Inr (slice data offset (offset + 32))))"

definition writedirentry :: "FAT12 \<Rightarrow> nat \<Rightarrow> nat \<Rightarrow> byte list \<Rightarrow> error + FAT12" where
  "writedirentry fs cluster offset entry =
     (if length entry \<noteq> 32 then Inl AssertionError
      else if cluster = 1 then
        ebind (read_rootdir fs) (\<lambda>rootdir.
          write_rootdir fs (slice_assign rootdir offset (offset + 32) entry))
      else
        ebind (readcluster fs cluster) (\<lambda>data.
          writecluster fs cluster (slice_assign data offset (offset + 32) entry)))"

subsection \<open>Allocation\<close>

text \<open>
  \<open>_alloccluster\<close>: the first entry of the table from index 2 that is 0 becomes 0xFFF, and
  the entry of \<open>attach_to\<close>, if given, points to it.
\<close>

function find_free :: "nat list \<Rightarrow> nat \<Rightarrow> nat option" where
  "find_free tbl i =
     (if i < length tbl then (if tbl ! i = 0 then Some i else find_free tbl (i + 1)) else None)"
  by pat_completeness auto
termination
  by (relation "measure (\<lambda>(tbl, i). length tbl - i)") auto

declare find_free.simps [simp del]

definition alloccluster :: "FAT12 \<Rightarrow> nat option \<Rightarrow> nat outcome" where
  "alloccluster fs attach_to =
     (if (case attach_to of None \<Rightarrow> False | Some a \<Rightarrow> \<not> isvalidcluster a)
      then (Inl AssertionError, fs)
      else
        (case find_free (fat fs) 2 of
           None \<Rightarrow> (Inl (IOError ''floppy is full''), fs)
         | Some i \<Rightarrow>
             (let fs1 = fs\<lparr>fat := (fat fs)[i := 0xFFF]\<rparr> in
              case attach_to of
                None \<Rightarrow> (Inr i, fs1)
              | Some a \<Rightarrow>
                  if a = 0 then (Inr i, fs1)
                  else if a < length (fat fs1) then (Inr i, fs1\<lparr>fat := (fat fs1)[a := i]\<rparr>)
                  else (Inl IndexError, fs1))))"

text \<open>
  \<open>_allocdirentry\<close> returns the directory, the cluster that holds the free entry and the
  offset of the entry.  The root directory cannot grow; a subdirectory whose chain has no
  free entry gets a new zeroed cluster.  The walk along the chain follows the table for as
  long as it does not meet an end-of-chain value.
\<close>

partial_function (option) allocdirentry_walk ::
  "FAT12 \<Rightarrow> nat \<Rightarrow> nat \<Rightarrow> nat \<Rightarrow> nat \<Rightarrow> (nat \<times> nat \<times> nat) outcome option" where
  "allocdirentry_walk fs ocluster pcluster cluster offset =
     (if \<not> cluster_is_end_of_chain cluster then
        (case readcluster fs cluster of
           Inl e \<Rightarrow> Some (Inl e, fs)
         | Inr data \<Rightarrow>
             (case allocdirentrycluster data offset of
                Inl e \<Rightarrow> Some (Inl e, fs)
              | Inr (Some noffset) \<Rightarrow> Some (Inr (ocluster, cluster, noffset), fs)
              | Inr None \<Rightarrow>
                  (case index (fat fs) cluster of
                     Inl e \<Rightarrow> Some (Inl e, fs)
                   | Inr next \<Rightarrow> allocdirentry_walk fs ocluster cluster next 0)))
      else
        (case alloccluster fs (Some pcluster) of
           (Inl e, fs1) \<Rightarrow> Some (Inl e, fs1)
         | (Inr ncluster, fs1) \<Rightarrow>
             (case writecluster fs1 ncluster
                     (replicate (bytes_per_sector fs1 * sectors_per_cluster fs1) 0) of
                Inl e \<Rightarrow> Some (Inl e, fs1)
              | Inr fs2 \<Rightarrow> Some (Inr (ocluster, ncluster, 0), fs2))))"

definition allocdirentry :: "FAT12 \<Rightarrow> nat \<Rightarrow> nat \<Rightarrow> (nat \<times> nat \<times> nat) outcome option" where
  "allocdirentry fs cluster offset =
     (if cluster = 1 then
        attempt (read_rootdir fs) fs (\<lambda>rootdir.
        attempt (allocdirentrycluster rootdir offset) fs (\<lambda>noffset.
          case noffset of
            None \<Rightarrow> raise (IOError ''root directory is full'') fs
          | Some n \<Rightarrow> return (1, 1, n) fs))
      else allocdirentry_walk fs cluster cluster cluster offset)"

text \<open>
  The loop that frees a chain, in \<open>delete_file\<close>: \<open>while self._isvalidcluster(cluster)\<close>
  zeroes the entry of the cluster and goes to the cluster it held.  It returns the value that
  ended the chain.
\<close>

function free_chain :: "FAT12 \<Rightarrow> nat \<Rightarrow> nat outcome" where
  "free_chain fs cluster =
     (if isvalidcluster cluster then
        (if cluster < length (fat fs)
         then free_chain (fs\<lparr>fat := (fat fs)[cluster := 0]\<rparr>) (fat fs ! cluster)
         else (Inl IndexError, fs))
      else (Inr cluster, fs))"
  by pat_completeness auto
termination
proof (relation "measure (\<lambda>(fs, c). 2 * sum_list (fat fs) + (if isvalidcluster c then 1 else 0))",
       goal_cases)
  case 1
  show ?case by simp
next
  case (2 fs cluster)
  then have "sum_list ((fat fs)[cluster := 0]) = sum_list (fat fs) - fat fs ! cluster"
    by (simp add: sum_list_update)
  moreover have "fat fs ! cluster \<le> sum_list (fat fs)"
    using 2 by (simp add: member_le_sum_list)
  moreover have "\<not> isvalidcluster 0" by (simp add: isvalidcluster_def)
  ultimately show ?case using 2 by (cases "fat fs ! cluster = 0") auto
qed

declare free_chain.simps [simp del]

subsection \<open>Path resolution\<close>

text \<open>
  \<open>_resolvefile\<close>: the cluster and the offset of the entry named \<open>name\<close> in the directory
  \<open>cluster\<close>, or \<open>(None, None)\<close>.
\<close>

partial_function (option) resolvefile_walk ::
  "FAT12 \<Rightarrow> string \<Rightarrow> nat \<Rightarrow> nat \<Rightarrow> (error + (nat \<times> nat) option) option" where
  "resolvefile_walk fs name cluster offset =
     (if \<not> cluster_is_end_of_chain cluster then
        (case readcluster fs cluster of
           Inl e \<Rightarrow> Some (Inl e)
         | Inr data \<Rightarrow>
             (case resolvefilesector name data offset of
                Inl e \<Rightarrow> Some (Inl e)
              | Inr (Some offset') \<Rightarrow> Some (Inr (Some (cluster, offset')))
              | Inr None \<Rightarrow>
                  (case index (fat fs) cluster of
                     Inl e \<Rightarrow> Some (Inl e)
                   | Inr next \<Rightarrow> resolvefile_walk fs name next 0)))
      else Some (Inr None))"

definition resolvefile ::
  "FAT12 \<Rightarrow> string \<Rightarrow> nat \<Rightarrow> nat \<Rightarrow> (error + (nat \<times> nat) option) option" where
  "resolvefile fs name cluster offset =
     (if cluster = 1 then
        Some (ebind (read_rootdir fs) (\<lambda>rootdir.
              ebind (resolvefilesector name rootdir offset) (\<lambda>offset'.
                Inr (case offset' of None \<Rightarrow> None | Some off \<Rightarrow> Some (1, off)))))
      else resolvefile_walk fs name cluster offset)"

text \<open>
  \<open>_resolvepath\<close> returns the directory in which the last component was looked up, and the
  cluster and offset of its entry, or \<open>(None, None, None)\<close>.  The loop keeps \<open>cluster\<close>
  (the directory of the lookup) and the last \<open>ocluster, offset\<close>.  The source checks that
  an intermediate component is a directory and does not assign its starting cluster to
  \<open>cluster\<close>: the next component is looked up in the same directory.
\<close>

partial_function (option) resolvepath_loop ::
  "FAT12 \<Rightarrow> nat \<Rightarrow> (nat \<times> nat) option \<Rightarrow> string
     \<Rightarrow> (error + (nat \<times> nat \<times> nat) option) option" where
  "resolvepath_loop fs cluster found path =
     (if path = [] then
        Some (Inr (case found of None \<Rightarrow> None | Some (oc, off) \<Rightarrow> Some (cluster, oc, off)))
      else
        (case splitpath path of (name, rest) \<Rightarrow>
           if name = [] \<and> rest = [] then
             Some (Inr (case found of None \<Rightarrow> None | Some (oc, off) \<Rightarrow> Some (cluster, oc, off)))
           else if name = [] then resolvepath_loop fs 1 found rest
           else
             (case resolvefile fs name cluster 0 of
                None \<Rightarrow> None
              | Some (Inl e) \<Rightarrow> Some (Inl e)
              | Some (Inr None) \<Rightarrow>
                  if cluster = 1 \<and> name = ''.'' then resolvepath_loop fs cluster None rest
                  else Some (Inr None)
              | Some (Inr (Some (ocluster, offset))) \<Rightarrow>
                  if rest = [] then Some (Inr (Some (cluster, ocluster, offset)))
                  else
                    (case readdirentry fs ocluster offset of
                       Inl e \<Rightarrow> Some (Inl e)
                     | Inr raw \<Rightarrow>
                         (case parsedirentry raw of
                            Inl e \<Rightarrow> Some (Inl e)
                          | Inr (Entry filename attributes modified scluster file_size) \<Rightarrow>
                              if attributes AND 0x10 = 0 then Some (Inr None)
                              else resolvepath_loop fs cluster (Some (ocluster, offset)) rest
                          | Inr _ \<Rightarrow> Some (Inr None))))))"

definition resolvepath ::
  "FAT12 \<Rightarrow> string \<Rightarrow> bool \<Rightarrow> (error + (nat \<times> nat \<times> nat) option) option" where
  "resolvepath fs path at_root =
     resolvepath_loop fs (if at_root then 1 else dircluster fs) None path"

text \<open>
  \<open>_resolvedir\<close> returns the cluster of the directory and the list of its parents, or
  \<open>(None, [])\<close>.  Not at the root, \<open>parents\<close> is the list object \<open>self._dirparents\<close>
  itself until \<open>parents = []\<close> rebinds it, and \<open>append\<close> and \<open>pop\<close> change that list in
  place.  The loop therefore carries the object and \<open>parents\<close> as \<open>None\<close> while it is the
  attribute, and as its own list afterwards.
\<close>

definition get_parents :: "FAT12 \<Rightarrow> nat list option \<Rightarrow> nat list" where
  "get_parents fs parents = (case parents of None \<Rightarrow> dirparents fs | Some ps \<Rightarrow> ps)"

definition set_parents :: "FAT12 \<Rightarrow> nat list option \<Rightarrow> nat list \<Rightarrow> FAT12 \<times> nat list option" where
  "set_parents fs parents ps =
     (case parents of None \<Rightarrow> (fs\<lparr>dirparents := ps\<rparr>, None) | Some _ \<Rightarrow> (fs, Some ps))"

text \<open>\<open>parents.append(c)\<close> and \<open>parents.pop()\<close>.\<close>

definition append_parents :: "FAT12 \<Rightarrow> nat list option \<Rightarrow> nat \<Rightarrow> FAT12 \<times> nat list option" where
  "append_parents fs parents c = set_parents fs parents (get_parents fs parents @ [c])"

definition pop_parents ::
  "FAT12 \<Rightarrow> nat list option \<Rightarrow> error + (nat \<times> FAT12 \<times> nat list option)" where
  "pop_parents fs parents =
     (let ps = get_parents fs parents in
      if ps = [] then Inl IndexError
      else (case set_parents fs parents (butlast ps) of (fs', parents') \<Rightarrow>
              Inr (last ps, fs', parents')))"

partial_function (option) resolvedir_loop ::
  "FAT12 \<Rightarrow> nat \<Rightarrow> nat list option \<Rightarrow> string \<Rightarrow> (nat option \<times> nat list) outcome option" where
  "resolvedir_loop fs cluster parents path =
     (if path = [] then Some (Inr (Some cluster, get_parents fs parents), fs)
      else
        (case splitpath path of (name, rest) \<Rightarrow>
           if name = [] \<and> rest = [] then Some (Inr (Some cluster, get_parents fs parents), fs)
           else if name = [] then resolvedir_loop fs 1 (Some []) rest
           else
             (case resolvefile fs name cluster 0 of
                None \<Rightarrow> None
              | Some (Inl e) \<Rightarrow> Some (Inl e, fs)
              | Some (Inr None) \<Rightarrow>
                  if cluster = 1 \<and> name = ''.'' then resolvedir_loop fs cluster parents rest
                  else Some (Inr (None, []), fs)
              | Some (Inr (Some (ocluster, offset))) \<Rightarrow>
                  (case ebind (readdirentry fs ocluster offset) parsedirentry of
                     Inl e \<Rightarrow> Some (Inl e, fs)
                   | Inr entry \<Rightarrow>
                       (case append_parents fs parents cluster of (fs1, parents1) \<Rightarrow>
                          (case entry of
                             Entry filename attributes modified cluster' file_size \<Rightarrow>
                               if attributes AND 0x10 = 0 then Some (Inr (None, []), fs1)
                               else if cluster' \<noteq> 0 then resolvedir_loop fs1 cluster' parents1 rest
                               else if name \<noteq> ''.'' \<and> name \<noteq> ''..''
                               then Some (Inl AssertionError, fs1)
                               else
                                 (case pop_parents fs1 parents1 of
                                    Inl e \<Rightarrow> Some (Inl e, fs1)
                                  | Inr (c2, fs2, parents2) \<Rightarrow>
                                      if name = ''.'' then resolvedir_loop fs2 c2 parents2 rest
                                      else
                                        (case pop_parents fs2 parents2 of
                                           Inl e \<Rightarrow> Some (Inl e, fs2)
                                         | Inr (c3, fs3, parents3) \<Rightarrow>
                                             resolvedir_loop fs3 c3 parents3 rest))
                           | _ \<Rightarrow> Some (Inr (None, []), fs1)))))))"

definition resolvedir :: "FAT12 \<Rightarrow> string \<Rightarrow> bool \<Rightarrow> (nat option \<times> nat list) outcome option" where
  "resolvedir fs path at_root =
     resolvedir_loop fs (if at_root then 1 else dircluster fs)
       (if at_root then Some [] else None) path"

subsection \<open>Label, parameter block and table on the image\<close>

text \<open>
  \<open>struct.pack\<close> of one field: a byte (\<open>B\<close>), and the two formats of \<open>_writebpb\<close>.
\<close>

definition struct_pack_B :: "nat \<Rightarrow> error + byte list" where
  "struct_pack_B v = (if v < 2 ^ 8 then Inr [of_nat v] else Inl StructError)"

definition pack_bpb :: "FAT12 \<Rightarrow> error + byte list" where
  "pack_bpb fs =
     ebind (struct_pack_H (bytes_per_sector fs)) (\<lambda>a.
     ebind (struct_pack_B (sectors_per_cluster fs)) (\<lambda>b.
     ebind (struct_pack_H (fat_start_sector fs)) (\<lambda>c.
     ebind (struct_pack_B (fat_count fs)) (\<lambda>d.
     ebind (struct_pack_H (root_entries fs)) (\<lambda>e.
     ebind (struct_pack_H (logical_sectors fs)) (\<lambda>f.
     ebind (struct_pack_B (descriptor fs)) (\<lambda>g.
     ebind (struct_pack_H (sectors_per_fat fs)) (\<lambda>h.
       Inr (a @ b @ c @ d @ e @ f @ g @ h)))))))))"

definition pack_bpb2 :: "FAT12 \<Rightarrow> error + byte list" where
  "pack_bpb2 fs =
     ebind (struct_pack_H (sectors_per_track fs)) (\<lambda>a.
     ebind (struct_pack_H (number_of_heads fs)) (\<lambda>b.
     ebind (struct_pack_I (hidden_sectors fs)) (\<lambda>c.
     ebind (struct_pack_I (large_total_logical_sectors fs)) (\<lambda>d.
     ebind (struct_pack_B (drive_number fs)) (\<lambda>e.
     ebind (struct_pack_B (ebpb_flags fs)) (\<lambda>f.
       Inr (a @ b @ c @ d @ e @ f)))))))"

definition FAT_8 :: "byte list" where
  "FAT_8 = encode_cp437 ''FAT     ''"

definition FAT12_8 :: "byte list" where
  "FAT12_8 = encode_cp437 ''FAT12   ''"

text \<open>The label as bytes: \<open>_updatelabel\<close> encodes a \<open>str\<close> label.\<close>

definition text_bytes :: "pytext \<Rightarrow> byte list" where
  "text_bytes t = (case t of Str s \<Rightarrow> encode_cp437 s | Bytes b \<Rightarrow> b)"

text \<open>
  \<open>_writebpb\<close>.  With an extended parameter block, \<open>len(self.serial)\<close> and the
  membership test of \<open>self.fs_type\<close> are asserted; \<open>len(None)\<close> raises \<open>TypeError\<close>.
  \<open>image.write(0x2B, self.bpb_label)\<close> writes the label as it is, encoded if it is a
  \<open>str\<close> no longer after \<open>_updatelabel\<close>.
\<close>

definition writebpb :: "FAT12 \<Rightarrow> unit outcome" where
  "writebpb fs =
     (if root_entries fs mod 16 \<noteq> 0 then (Inl AssertionError, fs)
      else
        (case pack_bpb fs of
           Inl e \<Rightarrow> (Inl e, fs)
         | Inr p1 \<Rightarrow>
             (let fs1 = fs\<lparr>image := img_write (image fs) 0x0B p1\<rparr> in
              case pack_bpb2 fs1 of
                Inl e \<Rightarrow> (Inl e, fs1)
              | Inr p2 \<Rightarrow>
                  (let fs2 = fs1\<lparr>image := img_write (image fs1) 0x18 p2\<rparr> in
                   if \<not> has_ebpb fs2 then (Inr (), fs2)
                   else
                     (case serial fs2 of
                        None \<Rightarrow> (Inl TypeError, fs2)
                      | Some ser \<Rightarrow>
                          if length ser \<noteq> 4 then (Inl AssertionError, fs2)
                          else if fs_type fs2 \<noteq> Some FAT_8 \<and> fs_type fs2 \<noteq> Some FAT12_8
                          then (Inl AssertionError, fs2)
                          else
                            (let fs3 = fs2\<lparr>bpb_label := text_bytes (private_label fs2)\<rparr>;
                                 img1 = img_write (image fs3) 0x27 ser;
                                 img2 = img_write img1 0x2B (bpb_label fs3);
                                 img3 = img_write img2 0x36 (the (fs_type fs3))
                             in (Inr (), fs3\<lparr>image := img3\<rparr>)))))))"

text \<open>
  \<open>_writefat\<close>: the table is padded to an even length, packed, and written \<open>fat_count\<close>
  times in a row from \<open>fat_start_sector\<close>.
\<close>

definition writefat :: "FAT12 \<Rightarrow> unit outcome" where
  "writefat fs =
     (if length (fat fs) > sectors_per_fat fs * bytes_per_sector fs * 3 div 2
      then (Inl AssertionError, fs)
      else
        (let fs1 = fs\<lparr>fat := pad_fat (fat fs)\<rparr> in
         case writefat_loop (fat fs1) 0 0
                (replicate (sectors_per_fat fs1 * bytes_per_sector fs1) 0) of
           Inl e \<Rightarrow> (Inl e, fs1)
         | Inr fats \<Rightarrow>
             (case write_sectors (image fs1) (fat_start_sector fs1)
                     (sectors_per_fat fs1 * fat_count fs1)
                     (concat (replicate (fat_count fs1) fats)) of
                Inl e \<Rightarrow> (Inl e, fs1)
              | Inr img \<Rightarrow> (Inr (), fs1\<lparr>image := img\<rparr>))))"

text \<open>
  \<open>_updatelabel\<close>.  The label becomes eleven bytes, padded with zero bytes.  When
  \<open>_write_label\<close> is set, the label entry of the root directory is rewritten: in place if
  the first entry is a label, and otherwise by rebuilding the directory from the entries
  before the end-of-directory entry that the list comprehension keeps (those whose attributes
  and 0x0F are 8), zero entries in the place of the others, and a new label entry in front.
\<close>

function collect_entries :: "byte list \<Rightarrow> nat \<Rightarrow> byte list list \<Rightarrow> nat \<times> byte list list" where
  "collect_entries rootdir i entries =
     (if i < length rootdir \<and> rootdir ! i \<noteq> 0
      then collect_entries rootdir (i + 32) (entries @ [slice rootdir i (i + 32)])
      else (i, entries))"
  by pat_completeness auto
termination
  by (relation "measure (\<lambda>(rootdir, i, entries). length rootdir - i)") auto

declare collect_entries.simps [simp del]

text \<open>\<open>for i, entry in enumerate(entries): rootdir[i * 32: i * 32 + 32] = entry\<close>.\<close>

fun store_entries :: "byte list \<Rightarrow> nat \<Rightarrow> byte list list \<Rightarrow> byte list" where
  "store_entries rootdir i [] = rootdir"
| "store_entries rootdir i (entry # entries) =
     store_entries (slice_assign rootdir (i * 32) (i * 32 + 32) entry) (i + 1) entries"

text \<open>\<open>[entry for entry in entries if entry[0x0B] & 0x0F == 8]\<close>.\<close>

fun keep_labels :: "byte list list \<Rightarrow> error + byte list list" where
  "keep_labels [] = Inr []"
| "keep_labels (entry # entries) =
     (case index entry 0x0B of
        Inl e \<Rightarrow> Inl e
      | Inr a \<Rightarrow>
          (case keep_labels entries of
             Inl e \<Rightarrow> Inl e
           | Inr rest \<Rightarrow> Inr (if unat a AND 0x0F = 8 then entry # rest else rest)))"

definition updatelabel :: "FAT12 \<Rightarrow> unit outcome" where
  "updatelabel fs =
     (let l = text_bytes (private_label fs);
          l11 = take 11 l @ (if length l < 11 then replicate (11 - length l) 0 else []);
          fs1 = fs\<lparr>private_label := Bytes l11\<rparr>
      in case read_rootdir fs1 of
           Inl e \<Rightarrow> (Inl e, fs1)
         | Inr rootdir \<Rightarrow>
             if \<not> write_label fs1 then (Inr (), fs1)
             else
               (let fs2 = fs1\<lparr>write_label := False\<rparr> in
                case index rootdir 0 of
                  Inl e \<Rightarrow> (Inl e, fs2)
                | Inr r0 \<Rightarrow>
                    (case (if r0 \<noteq> 0 \<and> r0 \<noteq> 0xE5
                           then ebind (index rootdir 0x0B) (\<lambda>a. Inr (unat a AND 8 = 8))
                           else Inr False) of
                       Inl e \<Rightarrow> (Inl e, fs2)
                     | Inr True \<Rightarrow>
                         (case write_rootdir fs2 (slice_assign rootdir 0 11 l11) of
                            Inl e \<Rightarrow> (Inl e, fs2)
                          | Inr fs3 \<Rightarrow> (Inr (), fs3))
                     | Inr False \<Rightarrow>
                         (case collect_entries rootdir 0 [] of (i, entries) \<Rightarrow>
                            (case (if i < length rootdir then
                                     ebind (keep_labels entries) (\<lambda>kept.
                                     ebind (makedirentry (now fs2) (Bytes l11) 8 None 0 0) (\<lambda>le.
                                       let entries' = le # kept
                                             @ replicate (length entries - length kept)
                                                 (replicate 32 0)
                                       in Inr (if length entries' * 32 \<le> length rootdir
                                               then store_entries rootdir 0 entries'
                                               else rootdir)))
                                   else Inr rootdir) of
                               Inl e \<Rightarrow> (Inl e, fs2)
                             | Inr rootdir' \<Rightarrow>
                                 (case write_rootdir fs2 rootdir' of
                                    Inl e \<Rightarrow> (Inl e, fs2)
                                  | Inr fs3 \<Rightarrow> (Inr (), fs3)))))))"

text \<open>\<open>commit\<close>: the label, the parameter block, the table.\<close>

definition commit :: "FAT12 \<Rightarrow> unit outcome" where
  "commit fs =
     (case updatelabel fs of
        (Inl e, fs1) \<Rightarrow> (Inl e, fs1)
      | (Inr _, fs1) \<Rightarrow>
          (case writebpb fs1 of
             (Inl e, fs2) \<Rightarrow> (Inl e, fs2)
           | (Inr _, fs2) \<Rightarrow> writefat fs2))"

subsection \<open>Removing and creating directory entries\<close>

text \<open>\<open>xs[i] = v\<close> on a bytearray.\<close>

definition store :: "'a list \<Rightarrow> nat \<Rightarrow> 'a \<Rightarrow> error + 'a list" where
  "store xs i v = (if i < length xs then Inr (xs[i := v]) else Inl IndexError)"

text \<open>
  \<open>_rmdirentry\<close>.  In a subdirectory, after the byte 0xE5 is written, the source tests
  \<open>all(cluster[i] in [0x00, 0xE5] for i in range(0, len(cluster), 32))\<close>, where
  \<open>cluster\<close> is the cluster number: \<open>len\<close> of an integer raises \<open>TypeError\<close>, and the
  statements that would unlink the cluster from the chain are never reached.
\<close>

definition rmdirentry :: "FAT12 \<Rightarrow> nat \<Rightarrow> nat \<Rightarrow> nat \<Rightarrow> unit outcome" where
  "rmdirentry fs cluster offset first_cluster =
     (if cluster = 1 then
        (case ebind (read_rootdir fs) (\<lambda>rootdir.
              ebind (store rootdir offset 0xE5) (\<lambda>rootdir'. write_rootdir fs rootdir')) of
           Inl e \<Rightarrow> (Inl e, fs)
         | Inr fs1 \<Rightarrow> (Inr (), fs1))
      else
        (case ebind (readcluster fs cluster) (\<lambda>data.
              ebind (store data offset 0xE5) (\<lambda>data'. writecluster fs cluster data')) of
           Inl e \<Rightarrow> (Inl e, fs)
         | Inr fs1 \<Rightarrow> (Inl TypeError, fs1)))"

text \<open>
  \<open>_isemptydir\<close> takes the entries that \<open>_allfilesincluster\<close> yields one at a time: it
  skips those whose name starts with a dot and returns \<open>False\<close> at the first other one.
  \<open>_allfilesin\<close> yields the files and directories of one cluster up to its
  end-of-directory entry, and \<open>_allfilesincluster\<close> goes on with the next cluster of the
  chain.  The sector function returns \<open>True\<close> when the cluster holds no such entry.
\<close>

function isemptydir_sector :: "byte list \<Rightarrow> nat \<Rightarrow> error + bool" where
  "isemptydir_sector sector i =
     (if i < length sector then
        (case parsedirentry (slice sector i (i + 32)) of
           Inl e \<Rightarrow> Inl e
         | Inr EndOfDirectory \<Rightarrow> Inr True
         | Inr FreeEntry \<Rightarrow> isemptydir_sector sector (i + 32)
         | Inr (Entry filename attributes modified cluster file_size) \<Rightarrow>
             if attributes AND 0xC8 \<noteq> 0 then isemptydir_sector sector (i + 32)
             else
               (case filename of
                  [] \<Rightarrow> Inl IndexError
                | c # _ \<Rightarrow> if c = CHR ''.'' then isemptydir_sector sector (i + 32) else Inr False))
      else Inr True)"
  by pat_completeness auto
termination
  by (relation "measure (\<lambda>(sector, i). length sector - i)") auto

declare isemptydir_sector.simps [simp del]

partial_function (option) isemptydir_walk :: "FAT12 \<Rightarrow> nat \<Rightarrow> (error + bool) option" where
  "isemptydir_walk fs cluster =
     (if \<not> cluster_is_end_of_chain cluster then
        (case readcluster fs cluster of
           Inl e \<Rightarrow> Some (Inl e)
         | Inr data \<Rightarrow>
             (case isemptydir_sector data 0 of
                Inl e \<Rightarrow> Some (Inl e)
              | Inr none \<Rightarrow>
                  if \<not> none then Some (Inr False)
                  else
                    (case index (fat fs) cluster of
                       Inl e \<Rightarrow> Some (Inl e)
                     | Inr next \<Rightarrow> isemptydir_walk fs next)))
      else Some (Inr True))"

definition isemptydir :: "FAT12 \<Rightarrow> nat \<Rightarrow> (error + bool) option" where
  "isemptydir fs dcluster = (if dcluster = 1 then Some (Inr False) else isemptydir_walk fs dcluster)"

text \<open>
  \<open>_createfile\<close>.  The loop ends with \<open>(None, None, None)\<close> returned, with an exception,
  or at its end or at a \<open>break\<close>, with the directory \<open>cluster\<close> and the last \<open>name\<close>;
  \<open>name\<close> is unbound when the path is empty.  As in \<open>_resolvepath\<close>, the starting
  cluster of an intermediate directory is not assigned to \<open>cluster\<close>.
\<close>

partial_function (option) createfile_loop ::
  "FAT12 \<Rightarrow> nat \<Rightarrow> string option \<Rightarrow> string \<Rightarrow> (error + (nat \<times> string option) option) option" where
  "createfile_loop fs cluster name0 path =
     (if path = [] then Some (Inr (Some (cluster, name0)))
      else
        (case splitpath path of (name, rest) \<Rightarrow>
           if name = [] \<and> rest = [] then Some (Inr (Some (cluster, Some name)))
           else if name = [] then createfile_loop fs 1 (Some name) rest
           else
             (case resolvefile fs name cluster 0 of
                None \<Rightarrow> None
              | Some (Inl e) \<Rightarrow> Some (Inl e)
              | Some (Inr None) \<Rightarrow>
                  if rest = [] then Some (Inr (Some (cluster, Some name)))
                  else if cluster = 1 \<and> name = ''.'' then createfile_loop fs cluster (Some name) rest
                  else Some (Inr None)
              | Some (Inr (Some (ocluster, offset))) \<Rightarrow>
                  if rest = [] then Some (Inl (ValueError ''file already exists''))
                  else
                    (case ebind (readdirentry fs ocluster offset) parsedirentry of
                       Inl e \<Rightarrow> Some (Inl e)
                     | Inr (Entry filename attributes modified scluster file_size) \<Rightarrow>
                         if attributes AND 0x10 = 0 then Some (Inr None)
                         else createfile_loop fs cluster (Some name) rest
                     | Inr _ \<Rightarrow> Some (Inr None)))))"

definition createfile :: "FAT12 \<Rightarrow> string \<Rightarrow> bool \<Rightarrow> (nat \<times> nat \<times> nat) option outcome option" where
  "createfile fs path at_root =
     attempt_walk (createfile_loop fs (if at_root then 1 else dircluster fs) None path) fs (\<lambda>r.
       case r of
         None \<Rightarrow> return None fs
       | Some (cluster, None) \<Rightarrow> raise NameError fs
       | Some (cluster, Some name) \<Rightarrow>
           if name = ''.'' \<or> name = ''..'' then raise (ValueError ''cannot create dotfile'') fs
           else
             attempt (makedirentry (now fs) (Str name) 0x20 None 0 0) fs (\<lambda>direntry.
             and_then (allocdirentry fs cluster 0) (\<lambda>(dcluster, ocluster, offset) fs1.
             attempt (writedirentry fs1 ocluster offset direntry) fs1 (\<lambda>fs2.
               return (Some (cluster, ocluster, offset)) fs2))))"

text \<open>
  \<open>_createdirectory\<close>: a new cluster, an entry for the directory made by \<open>_createfile\<close>
  and rewritten with the attribute 16 and the cluster, and the two dot entries in the new
  cluster.
\<close>

definition strip_slash :: "string \<Rightarrow> string" where
  "strip_slash path = (if path \<noteq> [] \<and> last path = CHR ''/'' then butlast path else path)"

definition createdirectory ::
  "FAT12 \<Rightarrow> string \<Rightarrow> bool \<Rightarrow> bool \<Rightarrow> (nat \<times> nat \<times> nat) option outcome option" where
  "createdirectory fs path0 at_root change_dir =
     (let path = strip_slash (replace_backslash path0) in
      if path = [] then raise (ValueError ''cannot create root directory'') fs
      else
        and_then (Some (alloccluster fs None)) (\<lambda>ncluster fs1.
        and_then (createfile fs1 path at_root) (\<lambda>r fs2.
          case r of
            None \<Rightarrow> return None fs2
          | Some (cluster, ocluster, offset) \<Rightarrow>
              if cluster = 0 then return r fs2
              else
                attempt (makedirentry (now fs2) (Str (basename path)) 16 None ncluster 0) fs2 (\<lambda>e1.
                attempt (writedirentry fs2 ocluster offset e1) fs2 (\<lambda>fs3.
                attempt (makedirentry (now fs3) (Bytes (encode_cp437 ''.'')) 16 None 0 0) fs3 (\<lambda>e2.
                attempt (writedirentry fs3 ncluster 0 e2) fs3 (\<lambda>fs4.
                attempt (makedirentry (now fs4) (Bytes (encode_cp437 ''..'')) 16 None 0 0) fs4 (\<lambda>e3.
                attempt (writedirentry fs4 ncluster 32 e3) fs4 (\<lambda>fs5.
                  return r (if change_dir then fs5\<lparr>dircluster := ncluster\<rparr> else fs5))))))))))"

subsection \<open>Reading and writing files\<close>

text \<open>
  \<open>_readfile\<close>.  \<open>attributes\<close> is \<open>None\<close> for an entry that does not exist, and
  \<open>None & 0x10\<close> raises \<open>TypeError\<close>.  The loop \<open>for i in range(0, file_size, bpc)\<close>
  appends \<open>self._readcluster(cluster)[: file_size - i]\<close> and follows the table;
  \<open>range\<close> raises for a step of 0.
\<close>

function readfile_loop :: "FAT12 \<Rightarrow> nat \<Rightarrow> nat \<Rightarrow> nat \<Rightarrow> nat \<Rightarrow> byte list \<Rightarrow> error + byte list" where
  "readfile_loop fs file_size bpc i cluster data =
     (if bpc = 0 then Inl (ValueError ''range() arg 3 must not be zero'')
      else if i < file_size then
        (case readcluster fs cluster of
           Inl e \<Rightarrow> Inl e
         | Inr c \<Rightarrow>
             (case index (fat fs) cluster of
                Inl e \<Rightarrow> Inl e
              | Inr next \<Rightarrow>
                  readfile_loop fs file_size bpc (i + bpc) next (data @ take (file_size - i) c)))
      else Inr data)"
  by pat_completeness auto
termination
  by (relation "measure (\<lambda>(fs, file_size, bpc, i, cluster, data). file_size - i)") auto

declare readfile_loop.simps [simp del]

definition readfile :: "FAT12 \<Rightarrow> nat \<Rightarrow> nat \<Rightarrow> error + byte list" where
  "readfile fs fcluster foffset =
     (let bpc = bytes_per_sector fs * sectors_per_cluster fs in
      ebind (ebind (readdirentry fs fcluster foffset) parsedirentry) (\<lambda>entry.
        case entry of
          Entry filename attributes modified cluster file_size \<Rightarrow>
            if attributes AND 0x10 \<noteq> 0 then Inl (ValueError ''cannot read a directory'')
            else readfile_loop fs file_size bpc 0 cluster []
        | _ \<Rightarrow> Inl TypeError))"

text \<open>
  The loops of \<open>_writefile\<close>.  The walk to the last cluster of the file follows the table
  while the entry of \<open>lcluster\<close> is not an end-of-chain value.
\<close>

partial_function (option) last_cluster :: "nat list \<Rightarrow> nat \<Rightarrow> (error + nat) option" where
  "last_cluster tbl lcluster =
     (case index tbl lcluster of
        Inl e \<Rightarrow> Some (Inl e)
      | Inr next \<Rightarrow>
          if \<not> cluster_is_end_of_chain next then last_cluster tbl next
          else Some (Inr lcluster))"

text \<open>\<open>for _ in range(file_clusters, new_file_clusters): lcluster = self._alloccluster(lcluster)\<close>.\<close>

fun extend_chain :: "nat \<Rightarrow> FAT12 \<Rightarrow> nat \<Rightarrow> nat outcome" where
  "extend_chain 0 fs lcluster = (Inr lcluster, fs)"
| "extend_chain (Suc n) fs lcluster =
     (case alloccluster fs (Some lcluster) of
        (Inl e, fs1) \<Rightarrow> (Inl e, fs1)
      | (Inr lcluster', fs1) \<Rightarrow> extend_chain n fs1 lcluster')"

text \<open>
  \<open>for _ in range(new_file_clusters)\<close>: the data cluster is asserted to be valid, the next
  \<open>bpc\<close> bytes of the contents are written to it, padded with zero bytes, and the table
  gives the next data cluster.
\<close>

fun write_data :: "nat \<Rightarrow> FAT12 \<Rightarrow> byte list \<Rightarrow> nat \<Rightarrow> nat \<Rightarrow> nat \<Rightarrow> unit outcome" where
  "write_data 0 fs contents bpc i datacluster = (Inr (), fs)"
| "write_data (Suc n) fs contents bpc i datacluster =
     (if \<not> isvalidcluster datacluster then (Inl AssertionError, fs)
      else
        (let w = slice contents i (i + bpc);
             w' = (if length w < bpc then w @ replicate (bpc - length w) 0 else w)
         in case writecluster fs datacluster w' of
              Inl e \<Rightarrow> (Inl e, fs)
            | Inr fs1 \<Rightarrow>
                (case index (fat fs1) datacluster of
                   Inl e \<Rightarrow> (Inl e, fs1)
                 | Inr next \<Rightarrow> write_data n fs1 contents bpc (i + bpc) next)))"

text \<open>
  The truncation: \<open>while self._isvalidcluster(fcluster)\<close> tests the cluster of the
  directory entry, which the loop does not change, and the body zeroes the table from the
  first cluster of the file on.  The loop is not entered for an entry in the root directory;
  for an entry in a subdirectory it ends with an \<open>IndexError\<close> or not at all.
\<close>

partial_function (option) truncate_loop :: "FAT12 \<Rightarrow> nat \<Rightarrow> nat \<Rightarrow> nat outcome option" where
  "truncate_loop fs fcluster cluster =
     (if isvalidcluster fcluster then
        (case index (fat fs) cluster of
           Inl e \<Rightarrow> Some (Inl e, fs)
         | Inr ncluster \<Rightarrow> truncate_loop (fs\<lparr>fat := (fat fs)[cluster := 0]\<rparr>) fcluster ncluster)
      else Some (Inr cluster, fs))"

text \<open>\<open>_writefile\<close>; it returns nothing.\<close>

definition writefile :: "FAT12 \<Rightarrow> nat \<Rightarrow> nat \<Rightarrow> byte list \<Rightarrow> bool \<Rightarrow> unit outcome option" where
  "writefile fs fcluster foffset contents ignore_readonly =
     (let bpc = bytes_per_sector fs * sectors_per_cluster fs in
      attempt (ebind (readdirentry fs fcluster foffset) parsedirentry) fs (\<lambda>entry.
        case entry of
          Entry filename attributes modified cluster0 file_size \<Rightarrow>
            if attributes AND 0x10 \<noteq> 0 then raise (ValueError ''cannot write to a directory'') fs
            else if \<not> ignore_readonly \<and> attributes AND 1 = 1
            then raise (ValueError ''file is read-only'') fs
            else if bpc = 0 then raise ZeroDivisionError fs
            else if cluster0 = 0 \<and> file_size \<noteq> 0 then raise AssertionError fs
            else if cluster0 = 0 \<and> contents = [] then return () fs
            else
              and_then (if cluster0 = 0
                        then and_then (Some (alloccluster fs None)) (\<lambda>c fs1. return (c, 1) fs1)
                        else return (cluster0, (file_size + (bpc - 1)) div bpc) fs)
                (\<lambda>(cluster, file_clusters) fs1.
              attempt_walk (last_cluster (fat fs1) cluster) fs1 (\<lambda>lcluster.
                let new_file_size = length contents;
                    new_file_clusters = (new_file_size + (bpc - 1)) div bpc
                in
              and_then (Some (extend_chain (new_file_clusters - file_clusters) fs1 lcluster))
                (\<lambda>lcluster' fs2.
              and_then (Some (write_data new_file_clusters fs2 contents bpc 0 cluster)) (\<lambda>_ fs3.
              and_then (if file_clusters > new_file_clusters
                        then truncate_loop fs3 fcluster cluster
                        else return cluster fs3) (\<lambda>cluster' fs4.
              attempt (makedirentry (now fs4) (Str filename) attributes None cluster' new_file_size)
                 fs4 (\<lambda>direntry.
              attempt (writedirentry fs4 fcluster foffset direntry) fs4 (\<lambda>fs5.
                Some (commit fs5))))))))
        | _ \<Rightarrow> raise TypeError fs))"

subsection \<open>The public operations\<close>

text \<open>\<open>FAT12FileInfo\<close>; the date and the size are \<open>None\<close> for a directory.\<close>

record FAT12FileInfo =
  info_name :: string
  info_attributes :: nat
  info_date :: "datetime option"
  info_starting_cluster :: nat
  info_size :: "nat option"

text \<open>
  The entry that a resolved path stands for: \<open>self._parsedirentry(self._readdirentry(fcluster, foffset))\<close>.
\<close>

definition entry_at :: "FAT12 \<Rightarrow> nat \<Rightarrow> nat \<Rightarrow> error + direntry" where
  "entry_at fs fcluster foffset = ebind (readdirentry fs fcluster foffset) parsedirentry"

definition chdirroot :: "FAT12 \<Rightarrow> FAT12" where
  "chdirroot fs = fs\<lparr>dircluster := 1, dirparents := []\<rparr>"

definition chdir :: "FAT12 \<Rightarrow> string \<Rightarrow> unit outcome option" where
  "chdir fs path =
     and_then (resolvedir fs path False) (\<lambda>(cluster, parents) fs1.
       case cluster of
         None \<Rightarrow> raise FileNotFoundError fs1
       | Some c \<Rightarrow> return () (fs1\<lparr>dircluster := c, dirparents := parents\<rparr>))"

definition stat :: "FAT12 \<Rightarrow> string \<Rightarrow> (error + FAT12FileInfo) option" where
  "stat fs path =
     (case resolvepath fs path False of
        None \<Rightarrow> None
      | Some (Inl e) \<Rightarrow> Some (Inl e)
      | Some (Inr None) \<Rightarrow> Some (Inl FileNotFoundError)
      | Some (Inr (Some (cluster, fcluster, foffset))) \<Rightarrow>
          Some (ebind (entry_at fs fcluster foffset) (\<lambda>entry.
            case entry of
              Entry filename attributes modified cluster file_size \<Rightarrow>
                (let is_dir = (attributes AND 0x10 \<noteq> 0) in
                 Inr \<lparr>info_name = filename, info_attributes = attributes,
                      info_date = (if \<not> is_dir then Some modified else None),
                      info_starting_cluster = cluster,
                      info_size = (if \<not> is_dir then Some file_size else None)\<rparr>)
            | _ \<Rightarrow> Inl TypeError)))"

definition read_file :: "FAT12 \<Rightarrow> string \<Rightarrow> (error + byte list) option" where
  "read_file fs path =
     (case resolvepath fs path False of
        None \<Rightarrow> None
      | Some (Inl e) \<Rightarrow> Some (Inl e)
      | Some (Inr None) \<Rightarrow> Some (Inl FileNotFoundError)
      | Some (Inr (Some (cluster, fcluster, foffset))) \<Rightarrow> Some (readfile fs fcluster foffset))"

definition write_file :: "FAT12 \<Rightarrow> string \<Rightarrow> byte list \<Rightarrow> bool \<Rightarrow> unit outcome option" where
  "write_file fs path contents ignore_readonly =
     attempt_walk (resolvepath fs path False) fs (\<lambda>r.
     and_then (case r of None \<Rightarrow> createfile fs path False | Some _ \<Rightarrow> return r fs) (\<lambda>r' fs1.
       case r' of
         None \<Rightarrow> raise FileNotFoundError fs1
       | Some (cluster, fcluster, foffset) \<Rightarrow>
           writefile fs1 fcluster foffset contents ignore_readonly))"

definition set_attributes :: "FAT12 \<Rightarrow> string \<Rightarrow> nat \<Rightarrow> unit outcome option" where
  "set_attributes fs path attrib =
     attempt_walk (resolvepath fs path False) fs (\<lambda>r.
       case r of
         None \<Rightarrow> raise FileNotFoundError fs
       | Some (dcluster, fcluster, foffset) \<Rightarrow>
           attempt (entry_at fs fcluster foffset) fs (\<lambda>entry.
             case entry of
               Entry filename attributes modified cluster file_size \<Rightarrow>
                 if dcluster \<noteq> 1 \<and> (filename = ''.'' \<or> filename = ''..'')
                 then raise (ValueError ''cannot edit dotfile'') fs
                 else
                   attempt (makedirentry (now fs) (Str filename)
                              ((attributes AND 0xD8) OR (attrib AND 0x27))
                              (Some modified) cluster file_size) fs (\<lambda>direntry.
                   attempt (writedirentry fs fcluster foffset direntry) fs (\<lambda>fs1.
                     return () fs1))
             | _ \<Rightarrow> raise TypeError fs))"

definition delete_file :: "FAT12 \<Rightarrow> string \<Rightarrow> bool \<Rightarrow> unit outcome option" where
  "delete_file fs path ignore_readonly =
     attempt_walk (resolvepath fs path False) fs (\<lambda>r.
       case r of
         None \<Rightarrow> raise FileNotFoundError fs
       | Some (dcluster, fcluster, foffset) \<Rightarrow>
           attempt (entry_at fs fcluster foffset) fs (\<lambda>entry.
             case entry of
               Entry filename attributes modified cluster file_size \<Rightarrow>
                 if attributes AND 0x10 \<noteq> 0
                 then raise (ValueError ''cannot delete a directory with delete_file'') fs
                 else if \<not> ignore_readonly \<and> attributes AND 1 = 1
                 then raise (ValueError ''file is read-only'') fs
                 else if dcluster \<noteq> 1 \<and> (filename = ''.'' \<or> filename = ''..'')
                 then raise (ValueError ''cannot delete dotfile'') fs
                 else
                   and_then (Some (free_chain fs cluster)) (\<lambda>cluster' fs1.
                   and_then (Some (rmdirentry fs1 fcluster foffset cluster')) (\<lambda>_ fs2.
                     Some (commit fs2)))
             | _ \<Rightarrow> raise TypeError fs))"

definition create_directory :: "FAT12 \<Rightarrow> string \<Rightarrow> bool \<Rightarrow> unit outcome option" where
  "create_directory fs path change_dir =
     and_then (createdirectory fs path False change_dir) (\<lambda>_ fs1. Some (commit fs1))"

text \<open>
  \<open>remove_directory\<close>.  After the check that the entry is a directory the source evaluates
  \<open>_isemptydir(cluster)\<close>: \<open>_isemptydir\<close> is a method, not a name of the function or
  of the module, and the lookup raises \<open>NameError\<close>.  The rest of the function (the change
  of directory, the loop that frees the chain, \<open>self._rmdirentry(fcluster, offset)\<close>,
  the commit) is never reached.
\<close>

definition remove_directory :: "FAT12 \<Rightarrow> string \<Rightarrow> unit outcome option" where
  "remove_directory fs path =
     attempt_walk (resolvepath fs path False) fs (\<lambda>r.
       case r of
         None \<Rightarrow> raise FileNotFoundError fs
       | Some (dcluster, fcluster, foffset) \<Rightarrow>
           attempt (entry_at fs fcluster foffset) fs (\<lambda>entry.
             case entry of
               Entry filename attributes modified cluster file_size \<Rightarrow>
                 if \<not> (attributes AND 0x10 \<noteq> 0)
                 then raise (ValueError ''cannot delete a file with remove_directory'') fs
                 else raise NameError fs
             | _ \<Rightarrow> raise TypeError fs))"

definition rename :: "FAT12 \<Rightarrow> string \<Rightarrow> string \<Rightarrow> unit outcome option" where
  "rename fs path name =
     attempt_walk (resolvepath fs path False) fs (\<lambda>r.
       case r of
         None \<Rightarrow> raise FileNotFoundError fs
       | Some (dcluster, fcluster, foffset) \<Rightarrow>
           attempt (entry_at fs fcluster foffset) fs (\<lambda>entry.
             case entry of
               Entry filename attributes modified cluster file_size \<Rightarrow>
                 if dcluster \<noteq> 1 \<and> (filename = ''.'' \<or> filename = ''..'')
                 then raise (ValueError ''cannot rename dotfile'') fs
                 else
                   attempt (makedirentry (now fs) (Str name) attributes (Some modified)
                              cluster file_size) fs (\<lambda>direntry.
                   attempt (writedirentry fs fcluster foffset direntry) fs (\<lambda>fs1.
                     return () fs1))
             | _ \<Rightarrow> raise TypeError fs))"

text \<open>
  \<open>move\<close>.  Both lookups come first.  The test \<open>cluster != 1 and filename in [".", ".."]\<close>
  reads the local variable \<open>filename\<close> before it is assigned, which raises
  \<open>UnboundLocalError\<close>, a \<open>NameError\<close>, whenever the directory of the lookup is not the
  root directory.  After the entry has been parsed \<open>cluster\<close> is the starting cluster of
  the entry moved, and this is the directory in which \<open>_allocdirentry\<close> looks for a free
  entry; the entry removed is in the root directory.
\<close>

definition move :: "FAT12 \<Rightarrow> string \<Rightarrow> string \<Rightarrow> unit outcome option" where
  "move fs path folder =
     attempt_walk (resolvepath fs path False) fs (\<lambda>r.
     and_then (resolvedir fs folder False) (\<lambda>(dcluster, parents) fs1.
       case r of
         None \<Rightarrow> raise FileNotFoundError fs1
       | Some (cluster, fcluster, foffset) \<Rightarrow>
           (case dcluster of
              None \<Rightarrow> raise FileNotFoundError fs1
            | Some dcluster \<Rightarrow>
                if cluster \<noteq> 1 then raise NameError fs1
                else if cluster = dcluster then return () fs1
                else
                  attempt (readdirentry fs1 fcluster foffset) fs1 (\<lambda>oentry.
                  attempt (parsedirentry oentry) fs1 (\<lambda>entry.
                    case entry of
                      Entry filename attributes modified cluster' file_size \<Rightarrow>
                        (let fs2 = (if attributes AND 0x10 \<noteq> 0 \<and> cluster' = dircluster fs1
                                    then chdirroot fs1 else fs1) in
                         and_then (allocdirentry fs2 cluster' 0) (\<lambda>(dcluster', ocluster, offset) fs3.
                         attempt (writedirentry fs3 ocluster offset oentry) fs3 (\<lambda>fs4.
                         and_then (Some (rmdirentry fs4 fcluster foffset cluster')) (\<lambda>_ fs5.
                           Some (commit fs5)))))
                    | _ \<Rightarrow> raise TypeError fs1)))))"

definition exists :: "FAT12 \<Rightarrow> string \<Rightarrow> (error + bool) option" where
  "exists fs path =
     (case resolvepath fs path False of
        None \<Rightarrow> None
      | Some (Inl e) \<Rightarrow> Some (Inl e)
      | Some (Inr r) \<Rightarrow> Some (Inr (r \<noteq> None)))"

definition isfile :: "FAT12 \<Rightarrow> string \<Rightarrow> (error + bool) option" where
  "isfile fs path =
     (case resolvepath fs path False of
        None \<Rightarrow> None
      | Some (Inl e) \<Rightarrow> Some (Inl e)
      | Some (Inr None) \<Rightarrow> Some (Inr False)
      | Some (Inr (Some (cluster, fcluster, foffset))) \<Rightarrow>
          Some (ebind (entry_at fs fcluster foffset) (\<lambda>entry.
            case entry of
              Entry filename attributes modified cluster file_size \<Rightarrow> Inr (attributes AND 0x10 = 0)
            | _ \<Rightarrow> Inl TypeError)))"

text \<open>\<open>isdir\<close> calls \<open>_resolvedir\<close>, which may change \<open>self._dirparents\<close>.\<close>

definition isdir :: "FAT12 \<Rightarrow> string \<Rightarrow> bool outcome option" where
  "isdir fs path =
     and_then (resolvedir fs path False) (\<lambda>(cluster, parents) fs1. return (cluster \<noteq> None) fs1)"

definition issamefile :: "FAT12 \<Rightarrow> string \<Rightarrow> string \<Rightarrow> (error + bool option) option" where
  "issamefile fs path1 path2 =
     (case resolvepath fs path1 False of
        None \<Rightarrow> None
      | Some (Inl e) \<Rightarrow> Some (Inl e)
      | Some (Inr r1) \<Rightarrow>
          (case resolvepath fs path2 False of
             None \<Rightarrow> None
           | Some (Inl e) \<Rightarrow> Some (Inl e)
           | Some (Inr r2) \<Rightarrow>
               Some (Inr (case (r1, r2) of
                            (Some (c1, fc1, fo1), Some (c2, fc2, fo2)) \<Rightarrow> Some (fc1 = fc2 \<and> fo1 = fo2)
                          | _ \<Rightarrow> None))))"

text \<open>
  \<open>copy\<close>.  The attributes of the new entry are \<open>attributes | 0x20 & ~0x04\<close>; in Python
  \<open>&\<close> binds more tightly than \<open>|\<close>, so this is \<open>attributes | (0x20 & ~0x04)\<close>.  When
  the destination is a directory the source calls \<open>_createfile\<close> with the argument
  \<open>at_root\<close>, a name that is bound nowhere: the arguments are evaluated first and the call
  raises \<open>NameError\<close>.
\<close>

definition copy_attributes :: "nat \<Rightarrow> nat" where
  "copy_attributes attributes = nat (int attributes OR (0x20 AND NOT 0x04))"

definition copy :: "FAT12 \<Rightarrow> string \<Rightarrow> string \<Rightarrow> bool \<Rightarrow> unit outcome option" where
  "copy fs source destination ignore_readonly =
     attempt_walk (resolvepath fs source False) fs (\<lambda>s.
     attempt_walk (resolvepath fs destination False) fs (\<lambda>d.
       case s of
         None \<Rightarrow> raise FileNotFoundError fs
       | Some (scluster, sfcluster, sfoffset) \<Rightarrow>
           if (case d of None \<Rightarrow> False | Some (dc, dfc, dfo) \<Rightarrow> sfcluster = dfc \<and> sfoffset = dfo)
           then raise (ValueError ''cannot copy file to itself'') fs
           else
             and_then (case d of None \<Rightarrow> createfile fs destination False | Some _ \<Rightarrow> return d fs)
               (\<lambda>d' fs1.
                case d' of
                  None \<Rightarrow> raise FileNotFoundError fs1
                | Some (dcluster, dfcluster, dfoffset) \<Rightarrow>
                    attempt (entry_at fs1 sfcluster sfoffset) fs1 (\<lambda>sentry.
                    attempt (entry_at fs1 dfcluster dfoffset) fs1 (\<lambda>dentry.
                      case (sentry, dentry) of
                        (Entry filename attributes modified cluster file_size,
                         Entry dfilename dattributes dmodified dcl dsize) \<Rightarrow>
                          if dattributes AND 0x10 = 0x10 then raise NameError fs1
                          else if \<not> ignore_readonly \<and> dattributes AND 1 = 1
                          then raise (ValueError ''destination file is read-only'') fs1
                          else
                            attempt (makedirentry (now fs1) (Str (basename destination))
                                       (copy_attributes attributes) None 0 0) fs1 (\<lambda>direntry.
                            attempt (writedirentry fs1 dfcluster dfoffset direntry) fs1 (\<lambda>fs2.
                            attempt (readfile fs2 sfcluster sfoffset) fs2 (\<lambda>contents.
                              writefile fs2 dfcluster dfoffset contents True)))
                      | _ \<Rightarrow> raise TypeError fs1)))))"

text \<open>\<open>set_label\<close>: the label padded with spaces to eleven bytes.\<close>

definition set_label :: "FAT12 \<Rightarrow> pytext \<Rightarrow> unit outcome" where
  "set_label fs label0 =
     (let l = text_bytes label0;
          l' = l @ (if length l < 11 then replicate (11 - length l) 0x20 else [])
      in if length l' > 11 then (Inl (ValueError ''label too long''), fs)
         else commit (fs\<lparr>label := Some (Bytes l'), private_label := Bytes l', write_label := True\<rparr>))"

section \<open>Mounting and formatting\<close>

text \<open>
  \<open>_readbpb\<close>, \<open>_readfat\<close>, \<open>_readlabel\<close> and \<open>_chdirroot\<close> make the object from an
  image.  \<open>FAT12_init\<close> is the constructor; \<open>current\<close> is the value of
  \<open>datetime.datetime.now()\<close> for the operations that follow.
\<close>

text \<open>\<open>struct.unpack\<close> of a field of \<open>n\<close> bytes at an offset of a byte string.\<close>

definition field :: "byte list \<Rightarrow> nat \<Rightarrow> nat \<Rightarrow> nat" where
  "field bs offset n = le_value (slice bs offset (offset + n))"

text \<open>
  The loop of \<open>_readlabel\<close>: the first 32-byte slot of the root directory region whose
  attribute byte has bit 8, whether or not the slot is in use.
\<close>

function readlabel_loop :: "byte list \<Rightarrow> nat \<Rightarrow> error + string option" where
  "readlabel_loop rootdir i =
     (if i < length rootdir then
        (case index rootdir (i + 0x0B) of
           Inl e \<Rightarrow> Inl e
         | Inr a \<Rightarrow>
             if unat a AND 8 = 8 then Inr (Some (rstrip (decode_cp437 (slice rootdir i (i + 11)))))
             else readlabel_loop rootdir (i + 32))
      else Inr None)"
  by pat_completeness auto
termination
  by (relation "measure (\<lambda>(rootdir, i). length rootdir - i)") auto

declare readlabel_loop.simps [simp del]

text \<open>
  \<open>_first_cluster_sector\<close> is computed after the table has been read from
  \<open>sectors_per_fat\<close> sectors, of which there are three at least, so that the subtraction
  of \<open>2 * sectors_per_cluster\<close> does not go below zero.
\<close>

definition FAT12_init :: "FloppyImage \<Rightarrow> datetime \<Rightarrow> error + FAT12" where
  "FAT12_init img current =
     ebind (read_mbr img) (\<lambda>mbr.
       if length (slice mbr 0x0B 0x18) \<noteq> 13 then Inl StructError
       else
         (let bps = field mbr 0x0B 2; spc = field mbr 0x0D 1; fstart = field mbr 0x0E 2;
              fcount = field mbr 0x10 1; rentries = field mbr 0x11 2; lsectors = field mbr 0x13 2;
              descr = field mbr 0x15 1; spf = field mbr 0x16 2
          in if fcount \<noteq> 1 \<and> fcount \<noteq> 2 then Inl (ValueError ''invalid FAT count'')
             else if bps \<noteq> 512 \<or> spc \<noteq> 1 \<or> descr \<noteq> 0xF0 \<or> rentries mod 16 \<noteq> 0
             then Inl NotImplementedError
             else if length (slice mbr 0x18 0x26) \<noteq> 14 then Inl StructError
             else
               ebind (index mbr 0x26) (\<lambda>sig.
                 let ebpb = (sig = 0x29);
                     fstype = slice mbr 0x36 (0x36 + 8)
                 in if ebpb \<and> fstype \<noteq> FAT_8 \<and> fstype \<noteq> FAT12_8 then Inl NotImplementedError
                    else
                      ebind (read_sectors img fstart spf) (\<lambda>data.
                      ebind (readfat_loop data 0 []) (\<lambda>tbl.
                      ebind (index tbl 0) (\<lambda>t0.
                        if t0 \<noteq> 0xFF0 then Inl AssertionError
                        else
                          ebind (index tbl 1) (\<lambda>t1.
                            if t1 \<noteq> 0xFFF then Inl AssertionError
                            else
                              (let rds = fstart + spf * fcount;
                                   fcs = (rds + rentries div 16 - 2 * spc + (spc - 1)) div spc;
                                   blabel = (if ebpb then slice mbr 0x2B (0x2B + 11)
                                             else replicate 11 0x20)
                               in ebind (read_sectors img rds (rentries div 16)) (\<lambda>rootdir.
                                  ebind (readlabel_loop rootdir 0) (\<lambda>found.
                                    Inr \<lparr>image = img, bytes_per_sector = bps,
                                         sectors_per_cluster = spc, fat_start_sector = fstart,
                                         fat_count = fcount, root_entries = rentries,
                                         logical_sectors = lsectors, descriptor = descr,
                                         sectors_per_fat = spf,
                                         sectors_per_track = field mbr 0x18 2,
                                         number_of_heads = field mbr 0x1A 2,
                                         hidden_sectors = field mbr 0x1C 4,
                                         large_total_logical_sectors = field mbr 0x20 4,
                                         drive_number = field mbr 0x24 1,
                                         ebpb_flags = field mbr 0x25 1,
                                         has_ebpb = ebpb,
                                         serial = (if ebpb then Some (slice mbr 0x27 0x2B) else None),
                                         bpb_label = blabel,
                                         fs_type = (if ebpb then Some fstype else None),
                                         fat = tbl, root_dir_sector = rds,
                                         first_cluster_sector = fcs,
                                         private_label =
                                           Str (case found of
                                                  Some l \<Rightarrow> l
                                                | None \<Rightarrow> rstrip (decode_cp437 blabel)),
                                         label =
                                           (case found of
                                              Some l \<Rightarrow> None
                                            | None \<Rightarrow> Some (Str (rstrip (decode_cp437 blabel)))),
                                         write_label = False, dircluster = 1, dirparents = [],
                                         now = current\<rparr>))))))))))"

text \<open>
  \<open>FAT12.format\<close>.  \<open>vsn\<close> stands for the four bytes of \<open>os.urandom(4)\<close>.  The boot
  sector is the jump, the vendor name and the parameter block, the extended parameter block,
  the code and the message of the source, and the signature.
\<close>

definition boot_head :: "byte list" where
  "boot_head =
     [0xEB, 0x3C, 0x90, 0x66, 0x61, 0x74, 0x31, 0x32, 0x2E, 0x70, 0x79, 0x00,
      0x02, 0x01, 0x01, 0x00, 0x02, 0xE0, 0x00, 0x40, 0x0B, 0xF0, 0x09, 0x00,
      0x12, 0x00, 0x02, 0x00]"

definition boot_code :: "byte list" where
  "boot_code =
     [0x0E, 0x1F, 0xBE, 0x5B, 0x7C, 0xAC, 0x20, 0xC0, 0x74, 0x0B, 0x56, 0xB4,
      0x0E, 0xBB, 0x07, 0x00, 0xCD, 0x10, 0x5E, 0xEB, 0xF0, 0x31, 0xC0, 0xCD,
      0x16, 0xCD, 0x19, 0xEB, 0xFC]"

definition boot_message :: "byte list" where
  "boot_message =
     [0x0D, 0x0A, 0x54, 0x68, 0x69, 0x73, 0x20, 0x69, 0x73, 0x20, 0x6E, 0x6F,
      0x74, 0x20, 0x61, 0x20, 0x62, 0x6F, 0x6F, 0x74, 0x61, 0x62, 0x6C, 0x65,
      0x20, 0x66, 0x6C, 0x6F, 0x70, 0x70, 0x79, 0x2E, 0x0D, 0x0A, 0x50, 0x6C,
      0x65, 0x61, 0x73, 0x65, 0x20, 0x72, 0x65, 0x6D, 0x6F, 0x76, 0x65, 0x20,
      0x74, 0x68, 0x69, 0x73, 0x20, 0x64, 0x69, 0x73, 0x6B, 0x20, 0x61, 0x6E,
      0x64, 0x20, 0x70, 0x72, 0x65, 0x73, 0x73, 0x20, 0x61, 0x6E, 0x79, 0x20,
      0x6B, 0x65, 0x79, 0x2E, 0x2E, 0x2E, 0x0D, 0x0A, 0x00]"

definition format_mbr :: "byte list \<Rightarrow> byte list \<Rightarrow> byte list" where
  "format_mbr vsn label11 =
     (let m0 = replicate 512 0;
          m1 = slice_assign m0 0 0x1C boot_head;
          m2 = m1[0x26 := 0x29];
          m3 = slice_assign m2 0x27 (0x27 + 4) vsn;
          m4 = slice_assign m3 0x2B (0x2B + 11) label11;
          m5 = slice_assign m4 0x36 (0x36 + 8) FAT12_8;
          m6 = slice_assign m5 0x3E (0x3E + 29) boot_code;
          m7 = slice_assign m6 0x5B (0x5B + length boot_message) boot_message
      in slice_assign m7 0x1FE 0x200 [0x55, 0xAA])"

definition format :: "FloppyImage \<Rightarrow> string \<Rightarrow> byte list \<Rightarrow> datetime \<Rightarrow> error + FAT12" where
  "format img label0 vsn current =
     (if img_size img \<noteq> Inch_3_5 \<and> img_capacity img \<noteq> 1440 then Inl NotImplementedError
      else
        (let l = encode_cp437 label0 in
         if length l > 11 then Inl (ValueError ''label is too long'')
         else
           (let l11 = l @ replicate (11 - length l) 0x20 in
            ebind (write_mbr img (format_mbr vsn l11)) (\<lambda>img1.
              let img2 = img_write img1 0x200 [0xF0, 0xFF, 0xFF, 0x00];
                  img3 = img_write img2 0x1400 [0xF0, 0xFF, 0xFF, 0x00]
              in ebind (FAT12_init img3 current) (\<lambda>fs.
                   case updatelabel (fs\<lparr>write_label := True\<rparr>) of
                     (Inl e, fs') \<Rightarrow> Inl e
                   | (Inr _, fs') \<Rightarrow> Inr fs')))))"

subsection \<open>The codec as list functions\<close>

text \<open>The two entries decoded from three bytes, and the three bytes packed from two entries.\<close>

fun fat_of_bytes :: "byte list \<Rightarrow> nat list" where
  "fat_of_bytes (b0 # b1 # b2 # rest) =
     (le_value [b0, b1, b2, 0] AND 0xFFF) # (drop_bit 12 (le_value [b0, b1, b2, 0]) AND 0xFFF)
       # fat_of_bytes rest"
| "fat_of_bytes _ = []"

fun bytes_of_fat :: "nat list \<Rightarrow> byte list" where
  "bytes_of_fat (e0 # e1 # rest) =
     take 3 (le_bytes4 ((e0 AND 0xFFF) OR push_bit 12 (e1 AND 0xFFF))) @ bytes_of_fat rest"
| "bytes_of_fat _ = []"


subsection \<open>The packed time stamp as a number\<close>

definition packed_time :: "datetime \<Rightarrow> nat" where
  "packed_time t = second t div 2 + 2 ^ 5 * minute t + 2 ^ 11 * hour t + 2 ^ 16 * day t
                     + 2 ^ 21 * month t + 2 ^ 25 * (year t - 1980)"

definition example_time :: datetime where
  "example_time = \<lparr>year = 2026, month = 11, day = 5, hour = 8, minute = 54, second = 12,
                     microsecond = 0\<rparr>"

text \<open>Field values in the ranges of a FAT12 time stamp that are no date: 29 February 2100.\<close>

definition no_date :: datetime where
  "no_date = \<lparr>year = 2100, month = 2, day = 29, hour = 0, minute = 0, second = 0,
                microsecond = 0\<rparr>"

section \<open>A sample volume\<close>

text \<open>
  A 1.44 MB image with the layout that \<open>format\<close> gives: the boot sector, two copies of
  the table in sectors 1 to 9 and 10 to 18, the root directory in sectors 19 to 32, and the
  clusters from sector 33.  The root directory holds the directory \<open>SUB\<close> and the files
  \<open>A.TXT\<close>, \<open>RO.TXT\<close> and \<open>F.BIN\<close>; \<open>SUB\<close> holds the file \<open>B.TXT\<close>.  All
  entries carry the time stamp \<open>example_time\<close>.
\<close>

definition sample_serial :: "byte list" where
  "sample_serial = [0x12, 0x34, 0x56, 0x78]"

definition sample_label :: "byte list" where
  "sample_label = encode_cp437 ''TEST       ''"

definition sample_boot :: "byte list" where
  "sample_boot = boot_head @ replicate 10 0 @ [0x29] @ sample_serial @ sample_label @ FAT12_8
                  @ boot_code @ boot_message @ replicate 338 0 @ [0x55, 0xAA]"

text \<open>The directory \<open>SUB\<close>, at cluster 2.\<close>

definition entry_SUB :: "byte list" where
  "entry_SUB =
     [0x53, 0x55, 0x42, 0x20, 0x20, 0x20, 0x20, 0x20, 0x20, 0x20, 0x20, 0x10,
      0x00, 0x00, 0x00, 0x00, 0x00, 0x00, 0x00, 0x00, 0x00, 0x00, 0xC6, 0x46,
      0x65, 0x5D, 0x02, 0x00, 0x00, 0x00, 0x00, 0x00]"

text \<open>The empty file \<open>A.TXT\<close> with the attributes system and archive.\<close>

definition entry_A :: "byte list" where
  "entry_A =
     [0x41, 0x20, 0x20, 0x20, 0x20, 0x20, 0x20, 0x20, 0x54, 0x58, 0x54, 0x24,
      0x00, 0x00, 0x00, 0x00, 0x00, 0x00, 0x00, 0x00, 0x00, 0x00, 0xC6, 0x46,
      0x65, 0x5D, 0x00, 0x00, 0x00, 0x00, 0x00, 0x00]"

text \<open>The empty read-only file \<open>RO.TXT\<close>.\<close>

definition entry_RO :: "byte list" where
  "entry_RO =
     [0x52, 0x4F, 0x20, 0x20, 0x20, 0x20, 0x20, 0x20, 0x54, 0x58, 0x54, 0x21,
      0x00, 0x00, 0x00, 0x00, 0x00, 0x00, 0x00, 0x00, 0x00, 0x00, 0xC6, 0x46,
      0x65, 0x5D, 0x00, 0x00, 0x00, 0x00, 0x00, 0x00]"

text \<open>The file \<open>F.BIN\<close> of 5120 bytes, from cluster 3.\<close>

definition entry_F :: "byte list" where
  "entry_F =
     [0x46, 0x20, 0x20, 0x20, 0x20, 0x20, 0x20, 0x20, 0x42, 0x49, 0x4E, 0x20,
      0x00, 0x00, 0x00, 0x00, 0x00, 0x00, 0x00, 0x00, 0x00, 0x00, 0xC6, 0x46,
      0x65, 0x5D, 0x03, 0x00, 0x00, 0x14, 0x00, 0x00]"

text \<open>The entry \<open>.\<close> of a subdirectory.\<close>

definition entry_dot :: "byte list" where
  "entry_dot =
     [0x2E, 0x20, 0x20, 0x20, 0x20, 0x20, 0x20, 0x20, 0x20, 0x20, 0x20, 0x10,
      0x00, 0x00, 0x00, 0x00, 0x00, 0x00, 0x00, 0x00, 0x00, 0x00, 0xC6, 0x46,
      0x65, 0x5D, 0x00, 0x00, 0x00, 0x00, 0x00, 0x00]"

text \<open>The entry \<open>..\<close> of a subdirectory.\<close>

definition entry_dotdot :: "byte list" where
  "entry_dotdot =
     [0x2E, 0x2E, 0x20, 0x20, 0x20, 0x20, 0x20, 0x20, 0x20, 0x20, 0x20, 0x10,
      0x00, 0x00, 0x00, 0x00, 0x00, 0x00, 0x00, 0x00, 0x00, 0x00, 0xC6, 0x46,
      0x65, 0x5D, 0x00, 0x00, 0x00, 0x00, 0x00, 0x00]"

text \<open>The empty file \<open>B.TXT\<close>.\<close>

definition entry_B :: "byte list" where
  "entry_B =
     [0x42, 0x20, 0x20, 0x20, 0x20, 0x20, 0x20, 0x20, 0x54, 0x58, 0x54, 0x20,
      0x00, 0x00, 0x00, 0x00, 0x00, 0x00, 0x00, 0x00, 0x00, 0x00, 0xC6, 0x46,
      0x65, 0x5D, 0x00, 0x00, 0x00, 0x00, 0x00, 0x00]"

text \<open>The table: cluster 2 is the directory, clusters 3 to 12 are the chain of \<open>F.BIN\<close>.\<close>

definition sample_table :: "nat list" where
  "sample_table = [0xFF0, 0xFFF, 0xFFF, 4, 5, 6, 7, 8, 9, 10, 11, 12, 0xFFF] @ replicate 3059 0"

definition sample_rootdir :: "byte list" where
  "sample_rootdir = entry_SUB @ entry_A @ entry_RO @ entry_F @ replicate 7040 0"

definition sample_subdir :: "byte list" where
  "sample_subdir = entry_dot @ entry_dotdot @ entry_B @ replicate 416 0"

definition sample_data :: "byte list" where
  "sample_data = sample_boot @ bytes_of_fat sample_table @ bytes_of_fat sample_table
                  @ sample_rootdir @ sample_subdir @ replicate 5120 0x41 @ replicate 1452032 0"

definition sample_image :: FloppyImage where
  "sample_image = \<lparr>img_size = Inch_3_5, img_capacity = 1474560, img_bytes_per_sector = 512,
                    img_data = sample_data\<rparr>"

text \<open>The object that the constructor makes from the image.\<close>

definition sample_volume :: FAT12 where
  "sample_volume =
     \<lparr>image = sample_image, bytes_per_sector = 512, sectors_per_cluster = 1,
      fat_start_sector = 1, fat_count = 2, root_entries = 224, logical_sectors = 2880,
      descriptor = 0xF0, sectors_per_fat = 9, sectors_per_track = 18, number_of_heads = 2,
      hidden_sectors = 0, large_total_logical_sectors = 0, drive_number = 0, ebpb_flags = 0,
      has_ebpb = True, serial = Some sample_serial, bpb_label = sample_label,
      fs_type = Some FAT12_8, fat = sample_table, root_dir_sector = 19,
      first_cluster_sector = 31, private_label = Str ''TEST'', label = Some (Str ''TEST''),
      write_label = False, dircluster = 1, dirparents = [], now = example_time\<rparr>"

text \<open>
  The same image with a second copy of the table that is all zero, and the object that the
  constructor, which reads the first copy only, makes from it.
\<close>

definition split_data :: "byte list" where
  "split_data = sample_boot @ bytes_of_fat sample_table @ replicate 4608 0
                 @ sample_rootdir @ sample_subdir @ replicate 5120 0x41 @ replicate 1452032 0"

definition split_image :: FloppyImage where
  "split_image = sample_image\<lparr>img_data := split_data\<rparr>"

definition split_volume :: FAT12 where
  "split_volume = sample_volume\<lparr>image := split_image\<rparr>"

section \<open>Properties of the FAT codec\<close>


lemma unat_byte_lt: "unat (a::byte) < 256"
  using unsigned_less [of a, where 'a = nat] by simp

lemma byte_256: "(256 :: byte) = 0" "(65536 :: byte) = 0" by simp_all

lemma and_mask_mod: "(x::nat) AND mask n = x mod 2 ^ n"
  by (simp flip: take_bit_eq_mask add: take_bit_eq_mod)

lemma and_FFF: "(x::nat) AND 0xFFF = x mod 4096"
  using and_mask_mod [of x 12] by (simp add: mask_eq_exp_minus_1)

lemma and_0F: "(x::nat) AND 0xF = x mod 16"
  using and_mask_mod [of x 4] by (simp add: mask_eq_exp_minus_1)

lemma or_push_bit_add: "(a::nat) < 2 ^ n \<Longrightarrow> a OR push_bit n b = a + b * 2 ^ n"
proof -
  assume a: "a < 2 ^ n"
  have "a + push_bit n b = a OR push_bit n b"
  proof (rule disjunctive_add_eq_or)
    have "take_bit n a = a" using a by (simp add: take_bit_nat_eq_self_iff)
    then have "a AND push_bit n b = take_bit n a AND push_bit n b" by simp
    also have "\<dots> = 0" by (rule bit_eqI) (auto simp: bit_simps)
    finally show "a AND push_bit n b = 0" .
  qed
  then show ?thesis by (simp add: push_bit_eq_mult)
qed

lemma div3_add: "(3 + n) div 3 = Suc (n div (3::nat))" by simp
lemma div2_add: "(2 + n) div 2 = Suc (n div (2::nat))" by simp

lemma length_fat_of_bytes: "length (fat_of_bytes bs) = 2 * (length bs div 3)"
  by (induction bs rule: fat_of_bytes.induct) (auto simp: div3_add)

lemma length_bytes_of_fat: "length (bytes_of_fat es) = 3 * (length es div 2)"
  by (induction es rule: bytes_of_fat.induct) (auto simp: le_bytes4_def div2_add)

lemma pair_lt: "le_value [b0, b1, b2, 0] < 2 ^ 24"
  using unat_byte_lt [of b0] unat_byte_lt [of b1] unat_byte_lt [of b2] by simp

lemma pack_unpack_pair:
  "take 3 (le_bytes4 (((le_value [b0, b1, b2, 0] AND 0xFFF) AND 0xFFF)
       OR push_bit 12 ((drop_bit 12 (le_value [b0, b1, b2, 0]) AND 0xFFF) AND 0xFFF))) = [b0, b1, b2]"
proof -
  define p where "p = le_value [b0, b1, b2, 0]"
  have p: "p = unat b0 + 256 * (unat b1 + 256 * unat b2)" by (simp add: p_def)
  have "(p mod 4096) OR push_bit 12 (p div 4096 mod 4096) = p mod 4096 + (p div 4096 mod 4096) * 2 ^ 12"
    by (rule or_push_bit_add) simp
  also have "\<dots> = p"
  proof -
    have "p < 16777216" using pair_lt [of b0 b1 b2] by (simp add: p_def)
    then have "p div 4096 < 4096" by simp
    then show ?thesis by simp
  qed
  finally have e: "((p AND 0xFFF) AND 0xFFF) OR push_bit 12 ((drop_bit 12 p AND 0xFFF) AND 0xFFF) = p"
    by (simp add: and_FFF drop_bit_eq_div)
  have d1: "p div 256 = unat b1 + 256 * unat b2" using unat_byte_lt [of b0] by (simp add: p)
  have d2: "p div 65536 = unat b2"
  proof -
    have "p div 65536 = p div 256 div 256" by (simp add: div_mult2_eq [symmetric])
    then show ?thesis using unat_byte_lt [of b1] by (simp add: d1)
  qed
  have "take 3 (le_bytes4 p) = [b0, b1, b2]"
    unfolding le_bytes4_def d1 d2 by (simp add: p byte_256)
  then show ?thesis unfolding p_def [symmetric] e .
qed

lemma bytes_of_fat_of_bytes: "length bs mod 3 = 0 \<Longrightarrow> bytes_of_fat (fat_of_bytes bs) = bs"
proof (induction bs rule: fat_of_bytes.induct)
  case (1 b0 b1 b2 rest)
  from "1.prems" have "length rest mod 3 = 0" by simp
  then have "bytes_of_fat (fat_of_bytes rest) = rest" by (rule "1.IH")
  then show ?case using pack_unpack_pair [of b0 b1 b2] by simp
qed simp_all

lemma drop3:
  assumes "i + 3 \<le> length xs"
  shows "drop i xs = xs ! i # xs ! (i + 1) # xs ! (i + 2) # drop (i + 3) xs"
proof -
  have "drop i xs = xs ! i # drop (Suc i) xs"
    using assms by (simp add: Cons_nth_drop_Suc)
  also have "drop (Suc i) xs = xs ! (i + 1) # drop (Suc (Suc i)) xs"
    using assms by (simp add: Cons_nth_drop_Suc)
  also have "drop (Suc (Suc i)) xs = xs ! (i + 2) # drop (i + 3) xs"
    using assms by (simp add: Cons_nth_drop_Suc numeral_3_eq_3)
  finally show ?thesis .
qed

lemma readfat_loop_eq:
  "length data mod 3 = 0 \<Longrightarrow> i mod 3 = 0 \<Longrightarrow>
   readfat_loop data i tbl = Inr (tbl @ fat_of_bytes (drop i data))"
proof (induction data i tbl rule: readfat_loop.induct)
  case (1 data i tbl)
  show ?case
  proof (cases "i < length data")
    case False
    then show ?thesis by (simp add: readfat_loop.simps [of data i tbl])
  next
    case True
    with "1.prems" have "i + 3 \<le> length data" by presburger
    then obtain b0 b1 b2 rest where d: "drop i data = b0 # b1 # b2 # rest"
      and d3: "drop (i + 3) data = rest"
      using drop3 [of i data] by blast
    have sl: "slice data i (i + 3) = [b0, b1, b2]" by (simp add: slice_def d)
    have u: "struct_unpack_I (slice data i (i + 3) @ [0]) = Inr (le_value [b0, b1, b2, 0])"
      by (simp add: sl struct_unpack_I_def)
    have "(i + 3) mod 3 = 0" using "1.prems" by simp
    with "1.IH" [OF True u] "1.prems" True show ?thesis
      by (simp add: readfat_loop.simps [of data i tbl] u d d3)
  qed
qed

lemma pack_value_lt: "((e0::nat) AND 0xFFF) OR push_bit 12 (e1 AND 0xFFF) < 2 ^ 32"
proof -
  have "(e0 mod 4096) OR push_bit 12 (e1 mod 4096) = e0 mod 4096 + (e1 mod 4096) * 2 ^ 12"
    by (rule or_push_bit_add) simp
  moreover have "e0 mod 4096 < 4096" "e1 mod 4096 < 4096" by simp_all
  ultimately show ?thesis by (simp add: and_FFF)
qed

lemma drop2:
  assumes "i + 2 \<le> length xs"
  shows "drop i xs = xs ! i # xs ! (i + 1) # drop (i + 2) xs"
proof -
  have "drop i xs = xs ! i # drop (Suc i) xs"
    using assms by (simp add: Cons_nth_drop_Suc)
  also have "drop (Suc i) xs = xs ! (i + 1) # drop (i + 2) xs"
    using assms by (simp add: Cons_nth_drop_Suc)
  finally show ?thesis .
qed

lemma writefat_loop_eq:
  "even (length tbl) \<Longrightarrow> even i \<Longrightarrow> j \<le> length fats \<Longrightarrow>
   writefat_loop tbl i j fats =
     Inr (take j fats @ bytes_of_fat (drop i tbl) @ drop (j + 3 * ((length tbl - i) div 2)) fats)"
proof (induction tbl i j fats rule: writefat_loop.induct)
  case (1 tbl i j fats)
  show ?case
  proof (cases "i < length tbl")
    case False
    then show ?thesis by (simp add: writefat_loop.simps [of tbl i j fats])
  next
    case True
    with "1.prems" have i2: "i + 2 \<le> length tbl" by presburger
    then have i1: "i + 1 < length tbl" by simp
    define v where "v = (tbl ! i AND 0xFFF) OR push_bit 12 (tbl ! (i + 1) AND 0xFFF)"
    define B where "B = take 3 (le_bytes4 v)"
    have lB: "length B = 3" by (simp add: B_def le_bytes4_def)
    have pk: "struct_pack_I v = Inr (le_bytes4 v)"
      using pack_value_lt [of "tbl ! i" "tbl ! (i + 1)"] by (simp add: struct_pack_I_def v_def)
    define fats' where "fats' = slice_assign fats j (j + 3) B"
    have f': "fats' = take j fats @ B @ drop (j + 3) fats"
      by (simp add: fats'_def slice_assign_def)
    have lj: "length (take j fats) = j" using "1.prems" by simp
    have j3: "j + 3 \<le> length fats'" using "1.prems" by (simp add: f' lB)
    have IH: "writefat_loop tbl (i + 2) (j + 3) fats' =
       Inr (take (j + 3) fats' @ bytes_of_fat (drop (i + 2) tbl)
             @ drop (j + 3 + 3 * ((length tbl - (i + 2)) div 2)) fats')"
      using "1.IH" [OF True i1 pk [unfolded v_def]] "1.prems" j3
      by (simp add: fats'_def B_def v_def)
    have t: "take (j + 3) fats' = take j fats @ B"
      using lj by (simp add: f' lB)
    have dd: "drop (j + 3 + 3 * ((length tbl - (i + 2)) div 2)) fats'
            = drop (j + 3 * ((length tbl - i) div 2)) fats"
    proof -
      have "(length tbl - i) div 2 = Suc ((length tbl - (i + 2)) div 2)"
        using i2 by presburger
      then have e: "j + 3 * ((length tbl - i) div 2) = j + 3 + 3 * ((length tbl - (i + 2)) div 2)"
        by simp
      have "drop (j + 3 + k) fats' = drop (j + 3 + k) fats" for k
        using lj by (simp add: f' lB add.commute)
      then show ?thesis unfolding e by simp
    qed
    have bf: "bytes_of_fat (drop i tbl) = B @ bytes_of_fat (drop (i + 2) tbl)"
      by (simp add: drop2 [OF i2] B_def v_def)
    have "writefat_loop tbl i j fats =
        (case struct_pack_I v of Inl e \<Rightarrow> Inl e
         | Inr bs \<Rightarrow> writefat_loop tbl (i + 2) (j + 3) (slice_assign fats j (j + 3) (take 3 bs)))"
      by (subst writefat_loop.simps) (simp only: True i1 if_True v_def)
    then have "writefat_loop tbl i j fats = writefat_loop tbl (i + 2) (j + 3) fats'"
      by (simp only: pk sum.case B_def fats'_def)
    also note IH
    finally show ?thesis by (simp only: t dd bf append_assoc)
  qed
qed

lemma trans_sym: "a = c \<Longrightarrow> b = c \<Longrightarrow> a = b" by simp

lemma decode_pair:
  fixes b0 b1 b2 :: byte
  shows "le_value [b0, b1, b2, 0] AND 0xFFF = unat b0 OR push_bit 8 (unat b1 AND 0x0F)"
    and "drop_bit 12 (le_value [b0, b1, b2, 0]) AND 0xFFF = drop_bit 4 (unat b1) OR push_bit 4 (unat b2)"
proof -
  define q r where "q = unat b1 div 16" and "r = unat b1 mod 16"
  have b1: "unat b1 = r + 16 * q" by (simp add: q_def r_def)
  have r: "r < 16" by (simp add: r_def)
  have q: "q < 16" using unat_byte_lt [of b1] by (simp add: q_def)
  note b0 = unat_byte_lt [of b0] and b2 = unat_byte_lt [of b2]
  define lo where "lo = unat b0 + 256 * r"
  define hi where "hi = q + 16 * unat b2"
  have lo: "lo < 4096" using b0 r by (simp add: lo_def)
  have hi: "hi < 4096" using q b2 by (simp add: hi_def)
  have p: "le_value [b0, b1, b2, 0] = lo + 4096 * hi"
    by (simp add: b1 lo_def hi_def)
  have "unat b0 OR push_bit 8 r = unat b0 + r * 2 ^ 8"
    by (rule or_push_bit_add) (use b0 in simp)
  then have e0: "unat b0 OR push_bit 8 (unat b1 AND 0x0F) = lo"
    by (simp add: and_0F r_def lo_def)
  have "q OR push_bit 4 (unat b2) = q + unat b2 * 2 ^ 4"
    by (rule or_push_bit_add) (use q in simp)
  then have e1: "drop_bit 4 (unat b1) OR push_bit 4 (unat b2) = hi"
    by (simp add: drop_bit_eq_div q_def hi_def)
  have l0: "le_value [b0, b1, b2, 0] AND 0xFFF = lo"
    unfolding p and_FFF using lo by simp
  have l1: "drop_bit 12 (le_value [b0, b1, b2, 0]) AND 0xFFF = hi"
    unfolding p and_FFF drop_bit_eq_div using lo hi by simp
  show "le_value [b0, b1, b2, 0] AND 0xFFF = unat b0 OR push_bit 8 (unat b1 AND 0x0F)"
    using l0 e0 by (rule trans_sym)
  show "drop_bit 12 (le_value [b0, b1, b2, 0]) AND 0xFFF = drop_bit 4 (unat b1) OR push_bit 4 (unat b2)"
    using l1 e1 by (rule trans_sym)
qed

lemma fat_of_bytes_nth:
  "3 * k + 3 \<le> length bs \<Longrightarrow>
     fat_of_bytes bs ! (2 * k) = le_value [bs ! (3 * k), bs ! (3 * k + 1), bs ! (3 * k + 2), 0] AND 0xFFF
   \<and> fat_of_bytes bs ! (2 * k + 1)
       = drop_bit 12 (le_value [bs ! (3 * k), bs ! (3 * k + 1), bs ! (3 * k + 2), 0]) AND 0xFFF"
proof (induction bs arbitrary: k rule: fat_of_bytes.induct)
  case (1 b0 b1 b2 rest)
  show ?case
  proof (cases k)
    case 0
    then show ?thesis by simp
  next
    case (Suc k')
    with "1.prems" have "3 * k' + 3 \<le> length rest" by simp
    from "1.IH" [OF this] Suc show ?thesis by (simp add: numeral_3_eq_3 numeral_2_eq_2)
  qed
qed simp_all

text \<open>
  Claim C7.  For a FAT byte string whose length is a multiple of three (any other length makes
  \<open>_readfat\<close> raise), the unpacking loop of \<open>_readfat\<close> returns a table with two entries
  for every three bytes \<open>b0, b1, b2\<close>, namely \<open>b0 | ((b1 & 0x0F) << 8)\<close> and
  \<open>(b1 >> 4) | (b2 << 4)\<close>, and the packing loop of \<open>_writefat\<close> run on that table
  reproduces the original bytes.
\<close>
theorem fat_pack_unpack_roundtrip:
  assumes "length fat_bytes mod 3 = 0"
  shows "\<exists>tbl. readfat_loop fat_bytes 0 [] = Inr tbl
      \<and> length tbl = 2 * (length fat_bytes div 3)
      \<and> (\<forall>k < length fat_bytes div 3.
            tbl ! (2 * k) = unat (fat_bytes ! (3 * k))
                              OR push_bit 8 (unat (fat_bytes ! (3 * k + 1)) AND 0x0F)
          \<and> tbl ! (2 * k + 1) = drop_bit 4 (unat (fat_bytes ! (3 * k + 1)))
                              OR push_bit 4 (unat (fat_bytes ! (3 * k + 2))))
      \<and> writefat_bytes tbl (length fat_bytes) = Inr fat_bytes"
proof -
  define tbl where "tbl = fat_of_bytes fat_bytes"
  have r: "readfat_loop fat_bytes 0 [] = Inr tbl"
    using assms by (simp add: readfat_loop_eq tbl_def)
  have l: "length tbl = 2 * (length fat_bytes div 3)"
    by (simp add: tbl_def length_fat_of_bytes)
  have n: "tbl ! (2 * k) = unat (fat_bytes ! (3 * k))
                              OR push_bit 8 (unat (fat_bytes ! (3 * k + 1)) AND 0x0F)
          \<and> tbl ! (2 * k + 1) = drop_bit 4 (unat (fat_bytes ! (3 * k + 1)))
                              OR push_bit 4 (unat (fat_bytes ! (3 * k + 2)))"
    if "k < length fat_bytes div 3" for k
  proof -
    from that have "3 * k + 3 \<le> length fat_bytes" by simp
    from fat_of_bytes_nth [OF this] show ?thesis
      unfolding tbl_def decode_pair by simp
  qed
  have ev: "even (length tbl)" by (simp add: l)
  then have pf: "pad_fat tbl = tbl" by (simp add: pad_fat_def)
  have "3 * (length fat_bytes div 3) = length fat_bytes" using assms by presburger
  then have "3 * (length tbl div 2) = length fat_bytes" by (simp add: l)
  then have w: "writefat_bytes tbl (length fat_bytes) = Inr fat_bytes"
    unfolding writefat_bytes_def pf
    using assms writefat_loop_eq [OF ev, of 0 0 "replicate (length fat_bytes) 0"]
    by (simp add: tbl_def bytes_of_fat_of_bytes)
  from r l n w show ?thesis by blast
qed

theorem fat_pack_unpack_roundtrip_witness:
  "length [0xF0, 0xFF, 0xFF, 0x03, 0x40, 0x00 :: byte] mod 3 = 0
   \<and> readfat_loop [0xF0, 0xFF, 0xFF, 0x03, 0x40, 0x00] 0 [] = Inr [0xFF0, 0xFFF, 3, 4]
   \<and> writefat_bytes [0xFF0, 0xFFF, 3, 4] 6 = Inr [0xF0, 0xFF, 0xFF, 0x03, 0x40, 0x00]"
proof -
  have l: "length [0xF0, 0xFF, 0xFF, 0x03, 0x40, 0x00 :: byte] = 6" by simp
  have h: "length [0xF0, 0xFF, 0xFF, 0x03, 0x40, 0x00 :: byte] mod 3 = 0" by simp
  have r: "readfat_loop [0xF0, 0xFF, 0xFF, 0x03, 0x40, 0x00] 0 [] = Inr [0xFF0, 0xFFF, 3, 4]"
    by (simp add: readfat_loop.simps slice_def struct_unpack_I_def)
  from fat_pack_unpack_roundtrip [OF h] obtain tbl
    where "readfat_loop [0xF0, 0xFF, 0xFF, 0x03, 0x40, 0x00] 0 [] = Inr tbl"
      and w: "writefat_bytes tbl (length [0xF0, 0xFF, 0xFF, 0x03, 0x40, 0x00 :: byte])
                = Inr [0xF0, 0xFF, 0xFF, 0x03, 0x40, 0x00]"
    by blast
  with r have "tbl = [0xFF0, 0xFFF, 3, 4]" by simp
  with w have "writefat_bytes [0xFF0, 0xFFF, 3, 4] 6 = Inr [0xF0, 0xFF, 0xFF, 0x03, 0x40, 0x00]"
    unfolding l by simp
  with h r show ?thesis by blast
qed


section \<open>Properties of the time stamp codec\<close>


lemma push_bit_or_add: "(a::nat) < 2 ^ n \<Longrightarrow> push_bit n b OR a = a + b * 2 ^ n"
  using or_push_bit_add [of a n b] by (simp add: or.commute)

lemma and_masks:
  "(x::nat) AND 0x7F = x mod 128" "(x::nat) AND 0x3F = x mod 64" "(x::nat) AND 0x1F = x mod 32"
  using and_mask_mod [of x 7] and_mask_mod [of x 6] and_mask_mod [of x 5]
  by (simp_all add: mask_eq_exp_minus_1)

lemma int_and_7F: "0 \<le> x \<Longrightarrow> nat ((x::int) AND 0x7F) = nat x mod 128"
proof -
  assume x: "0 \<le> x"
  have "x AND mask 7 = x mod 2 ^ 7"
    by (simp flip: take_bit_eq_mask add: take_bit_eq_mod)
  then have "x AND 0x7F = x mod 128" by (simp add: mask_eq_exp_minus_1)
  then show ?thesis using x by (simp add: nat_mod_distrib)
qed

lemma pdt_to_edt_value:
  assumes "1980 \<le> year t" "year t \<le> 2107" "month t \<le> 12" "day t \<le> 31"
    "hour t \<le> 23" "minute t \<le> 59" "second t \<le> 58"
  shows "pdt_to_edt t = Inr (le_bytes4 (packed_time t))" and "packed_time t < 2 ^ 32"
proof -
  define y where "y = year t - 1980"
  define s where "s = second t div 2"
  have y: "nat ((int (year t) - 1980) AND 0x7F) = y"
    using assms by (simp add: int_and_7F y_def nat_diff_distrib)
  have b: "y < 128" "month t < 16" "day t < 32" "hour t < 32" "minute t < 64" "s < 32"
    using assms by (simp_all add: y_def s_def)
  have e1: "push_bit 5 (minute t) OR s = s + minute t * 2 ^ 5"
    by (rule push_bit_or_add) (use b in simp)
  have e2: "push_bit 11 (hour t) OR (s + minute t * 2 ^ 5) = (s + minute t * 2 ^ 5) + hour t * 2 ^ 11"
    by (rule push_bit_or_add) (use b in simp)
  have e3: "push_bit 16 (day t) OR (s + minute t * 2 ^ 5 + hour t * 2 ^ 11)
              = (s + minute t * 2 ^ 5 + hour t * 2 ^ 11) + day t * 2 ^ 16"
    by (rule push_bit_or_add) (use b in simp)
  have e4: "push_bit 21 (month t) OR (s + minute t * 2 ^ 5 + hour t * 2 ^ 11 + day t * 2 ^ 16)
              = (s + minute t * 2 ^ 5 + hour t * 2 ^ 11 + day t * 2 ^ 16) + month t * 2 ^ 21"
    by (rule push_bit_or_add) (use b in simp)
  have e5: "push_bit 25 y OR (s + minute t * 2 ^ 5 + hour t * 2 ^ 11 + day t * 2 ^ 16 + month t * 2 ^ 21)
              = (s + minute t * 2 ^ 5 + hour t * 2 ^ 11 + day t * 2 ^ 16 + month t * 2 ^ 21) + y * 2 ^ 25"
    by (rule push_bit_or_add) (use b in simp)
  have m: "month t AND 0x0F = month t" "day t AND 0x1F = day t" "hour t AND 0x1F = hour t"
    "minute t AND 0x3F = minute t" "s AND 0x1F = s"
    using b by (simp_all add: and_masks and_0F)
  have v: "push_bit 25 y OR push_bit 21 (month t) OR push_bit 16 (day t)
             OR push_bit 11 (hour t) OR push_bit 5 (minute t) OR s = packed_time t"
    unfolding e1 e2 e3 e4 e5 by (simp add: packed_time_def y_def s_def)
  show lt: "packed_time t < 2 ^ 32"
    using b by (simp add: packed_time_def y_def [symmetric] s_def [symmetric])
  show "pdt_to_edt t = Inr (le_bytes4 (packed_time t))"
    unfolding pdt_to_edt_def Let_def y s_def [symmetric] m v
    using lt by (simp add: struct_pack_I_def)
qed

lemma le_value_le_bytes4: "v < 2 ^ 32 \<Longrightarrow> le_value (le_bytes4 v) = v"
proof -
  assume v: "v < 2 ^ 32"
  have e: "v div 65536 = v div 256 div 256" "v div 16777216 = v div 256 div 256 div 256"
    by (simp_all add: div_mult2_eq [symmetric])
  have "v div 256 div 256 div 256 < 256" using v by simp
  then show ?thesis unfolding le_bytes4_def e by (simp add: unat_of_nat)
qed


lemma unpack_packed_time:
  assumes "month t \<le> 12" "day t \<le> 31" "hour t \<le> 23" "minute t \<le> 59" "second t \<le> 58"
    "year t \<le> 2107"
  defines "i \<equiv> packed_time t"
  shows "drop_bit 25 i AND 0x7F = year t - 1980" "drop_bit 21 i AND 0x0F = month t"
    "drop_bit 16 i AND 0x1F = day t" "drop_bit 11 i AND 0x1F = hour t"
    "drop_bit 5 i AND 0x3F = minute t" "i AND 0x1F = second t div 2"
proof -
  define s where "s = second t div 2"
  define y where "y = year t - 1980"
  have b: "y < 128" "month t < 16" "day t < 32" "hour t < 32" "minute t < 64" "s < 32"
    using assms by (simp_all add: y_def s_def)
  define i4 where "i4 = month t + 16 * y"
  define i3 where "i3 = day t + 32 * i4"
  define i2 where "i2 = hour t + 32 * i3"
  define i1 where "i1 = minute t + 64 * i2"
  have i: "i = s + 32 * i1"
    by (simp add: i_def packed_time_def i1_def i2_def i3_def i4_def s_def y_def)
  have d5: "drop_bit 5 i = i1" using b by (simp add: drop_bit_eq_div i)
  have "drop_bit 6 (drop_bit 5 i) = i2" unfolding d5 using b by (simp add: drop_bit_eq_div i1_def)
  then have d11: "drop_bit 11 i = i2" by (simp add: drop_bit_drop_bit)
  have "drop_bit 5 (drop_bit 11 i) = i3" unfolding d11 using b by (simp add: drop_bit_eq_div i2_def)
  then have d16: "drop_bit 16 i = i3" by (simp add: drop_bit_drop_bit)
  have "drop_bit 5 (drop_bit 16 i) = i4" unfolding d16 using b by (simp add: drop_bit_eq_div i3_def)
  then have d21: "drop_bit 21 i = i4" by (simp add: drop_bit_drop_bit)
  have "drop_bit 4 (drop_bit 21 i) = y" unfolding d21 using b by (simp add: drop_bit_eq_div i4_def)
  then have d25: "drop_bit 25 i = y" by (simp add: drop_bit_drop_bit)
  show "drop_bit 25 i AND 0x7F = year t - 1980" unfolding d25 using b by (simp add: and_masks y_def)
  show "drop_bit 21 i AND 0x0F = month t" unfolding d21 using b by (simp add: and_0F i4_def)
  show "drop_bit 16 i AND 0x1F = day t" unfolding d16 using b by (simp add: and_masks i3_def)
  show "drop_bit 11 i AND 0x1F = hour t" unfolding d11 using b by (simp add: and_masks i2_def)
  show "drop_bit 5 i AND 0x3F = minute t" unfolding d5 using b by (simp add: and_masks i1_def)
  show "i AND 0x1F = second t div 2" unfolding i using b by (simp add: and_masks s_def)
qed

text \<open>
  Claim C9, as amended.  For every \<open>datetime\<close> object \<open>t\<close> (an existing date and time)
  with microsecond 0, year in 1980..2107 and an even second, \<open>_pdt_to_edt\<close> returns four
  bytes whose little-endian value holds seconds/2 in bits 0..4, the minute in bits 5..10, the
  hour in bits 11..15, the day in bits 16..20, the month in bits 21..24 and year - 1980 in
  bits 25..31, and \<open>_edt_to_pdt\<close> on these bytes returns \<open>t\<close>.
\<close>

theorem datetime_roundtrip:
  assumes "valid_datetime t" "1980 \<le> year t" "year t \<le> 2107" "even (second t)"
    "microsecond t = 0"
  shows "\<exists>bs. pdt_to_edt t = Inr bs
      \<and> le_value bs = second t div 2 + 2 ^ 5 * minute t + 2 ^ 11 * hour t + 2 ^ 16 * day t
                       + 2 ^ 21 * month t + 2 ^ 25 * (year t - 1980)
      \<and> edt_to_pdt bs = Inr t"
proof -
  have dm: "days_in_month (year t) (month t) \<le> 31" by (simp add: days_in_month_def)
  have s58: "second t \<le> 58"
  proof -
    have "second t \<le> 59" using assms(1) by (simp add: valid_datetime_def)
    moreover have "second t \<noteq> 59" using assms(4) by auto
    ultimately show ?thesis by simp
  qed
  have f: "1 \<le> month t" "month t \<le> 12" "1 \<le> day t" "day t \<le> 31" "hour t \<le> 23"
    "minute t \<le> 59"
    using assms(1) dm by (simp_all add: valid_datetime_def)
  define bs where "bs = le_bytes4 (packed_time t)"
  have p: "pdt_to_edt t = Inr bs" and lt: "packed_time t < 2 ^ 32"
    using pdt_to_edt_value [of t] assms f s58 by (simp_all add: bs_def)
  have v: "le_value bs = packed_time t"
    unfolding bs_def using lt by (rule le_value_le_bytes4)
  have u: "struct_unpack_I bs = Inr (packed_time t)"
    using v by (simp add: struct_unpack_I_def bs_def le_bytes4_def)
  have s: "second t div 2 * 2 = second t" using assms by simp
  have y: "1980 + (year t - 1980) = year t" using assms by simp
  have d: "edt_to_pdt bs
      = mk_datetime (year t) (month t) (day t) (hour t) (minute t) (second t)"
    unfolding edt_to_pdt_def u sum.case
    using assms f s58 by (simp only: unpack_packed_time s y)
  have r: "\<lparr>year = year t, month = month t, day = day t, hour = hour t,
              minute = minute t, second = second t, microsecond = 0\<rparr> = t"
    using assms(5) by (cases t) simp
  have "edt_to_pdt bs = Inr t"
    unfolding d using assms(1) by (simp add: mk_datetime_def r valid_datetime_def)
  with p v show ?thesis unfolding packed_time_def by blast
qed

theorem datetime_roundtrip_witness:
  "pdt_to_edt example_time = Inr [0xC6, 0x46, 0x65, 0x5D]
   \<and> edt_to_pdt [0xC6, 0x46, 0x65, 0x5D] = Inr example_time"
proof -
  have h: "valid_datetime example_time" "1980 \<le> year example_time"
    "year example_time \<le> 2107" "even (second example_time)" "microsecond example_time = 0"
    by (simp_all add: example_time_def valid_datetime_def days_in_month_def)
  have p: "pdt_to_edt example_time = Inr [0xC6, 0x46, 0x65, 0x5D]"
    by (simp add: example_time_def pdt_to_edt_def struct_pack_I_def le_bytes4_def
        and_masks and_0F int_and_7F push_bit_eq_mult)
  from datetime_roundtrip [OF h] obtain bs
    where "pdt_to_edt example_time = Inr bs" and "edt_to_pdt bs = Inr example_time"
    by blast
  with p show ?thesis by simp
qed

text \<open>
  The claim as stated fails: 29 February 2100 has its six fields in the ranges of the claim,
  and \<open>_edt_to_pdt\<close> raises \<open>ValueError\<close> on the four bytes that \<open>_pdt_to_edt\<close> computes
  from these fields, since 2100 is no leap year.
\<close>

theorem datetime_roundtrip_counterexample:
  "pdt_to_edt no_date = Inr [0x00, 0x00, 0x5D, 0xF0]
   \<and> edt_to_pdt [0x00, 0x00, 0x5D, 0xF0] = Inl (ValueError ''day is out of range for month'')"
proof -
  have f: "1980 \<le> year no_date" "year no_date \<le> 2107" "month no_date \<le> 12"
    "day no_date \<le> 31" "hour no_date \<le> 23" "minute no_date \<le> 59" "second no_date \<le> 58"
    by (simp_all add: no_date_def)
  have pt: "packed_time no_date = 4032626688"
    by (simp add: packed_time_def no_date_def)
  have p: "pdt_to_edt no_date = Inr [0x00, 0x00, 0x5D, 0xF0]"
    using pdt_to_edt_value(1) [OF f] by (simp add: pt le_bytes4_def)
  have u: "struct_unpack_I [0x00, 0x00, 0x5D, 0xF0] = Inr (packed_time no_date)"
    by (simp add: struct_unpack_I_def pt)
  have d: "edt_to_pdt [0x00, 0x00, 0x5D, 0xF0]
      = mk_datetime (1980 + (year no_date - 1980)) (month no_date) (day no_date)
          (hour no_date) (minute no_date) (second no_date div 2 * 2)"
    unfolding edt_to_pdt_def u sum.case
    using f by (simp only: unpack_packed_time)
  have "edt_to_pdt [0x00, 0x00, 0x5D, 0xF0] = Inl (ValueError ''day is out of range for month'')"
    unfolding d by (simp add: no_date_def mk_datetime_def days_in_month_def is_leap_def)
  with p show ?thesis by simp
qed

section \<open>The path of the root directory\<close>


lemma splitpath_slash: "splitpath ''/'' = ([], [])"
  by (simp add: splitpath_def replace_backslash_def)

lemma resolvepath_slash: "resolvepath fs ''/'' at_root = Some (Inr None)"
  by (simp add: resolvepath_def resolvepath_loop.simps [of _ _ _ "''/''"] splitpath_slash)

lemma resolvedir_slash:
  "resolvedir fs ''/'' False = Some (Inr (Some (dircluster fs), dirparents fs), fs)"
  by (simp add: resolvedir_def resolvedir_loop.simps [of _ _ _ "''/''"] splitpath_slash
      get_parents_def)

text \<open>
  Claim C10.  On every volume \<open>exists("/")\<close> returns \<open>False\<close>, \<open>stat("/")\<close> and
  \<open>read_file("/")\<close> raise \<open>FileNotFoundError\<close>, and \<open>isdir("/")\<close> returns \<open>True\<close>
  and leaves the object as it is.
\<close>

theorem root_path_exists_isdir:
  "exists fs ''/'' = Some (Inr False)
   \<and> stat fs ''/'' = Some (Inl FileNotFoundError)
   \<and> read_file fs ''/'' = Some (Inl FileNotFoundError)
   \<and> isdir fs ''/'' = Some (Inr True, fs)"
  by (simp add: exists_def stat_def read_file_def isdir_def resolvepath_slash resolvedir_slash
      and_then_def return_def)


end
